theory Spec2Isabelle
  imports Complex_Main "HOL-Library.Sublist" "HOL-Library.Product_Lexorder"
begin

section \<open>Python values used by SippApp/models.py\<close>

text \<open>
  The money fields of the models are \<^verbatim>\<open>DecimalField\<close>s, so an attribute read gives a
  Python \<^verbatim>\<open>decimal.Decimal\<close>: a finite decimal is a coefficient and an exponent,
  standing for \<open>coef * 10 ^ expo\<close> (\<^verbatim>\<open>Decimal('19.99')\<close> is coefficient 1999,
  exponent -2). The sign is the sign of the coefficient, so the two zeros of Python are
  one here; they are equal and both falsy in Python too.
\<close>

datatype decimal = Decimal (coef: int) (expo: int)

text \<open>The rational number a decimal stands for.\<close>

definition dec_val :: "decimal \<Rightarrow> rat" where
  "dec_val d =
     (if 0 \<le> expo d then of_int (coef d) * 10 ^ nat (expo d)
      else of_int (coef d) / 10 ^ nat (- expo d))"

text \<open>\<^verbatim>\<open>bool(d)\<close>: a Decimal is falsy exactly when it is zero.\<close>

definition dec_truthy :: "decimal \<Rightarrow> bool" where
  "dec_truthy d = (coef d \<noteq> 0)"

text \<open>\<^verbatim>\<open>d <= 0\<close> for a Decimal and the int 0 compares the numbers.\<close>

definition dec_le_zero :: "decimal \<Rightarrow> bool" where
  "dec_le_zero d = (coef d \<le> 0)"

datatype py_error =
    TypeError
  | DoesNotExist
  | IntegrityError
  | ValueError
  | Overflow
  | InvalidOperation

text \<open>
  Every arithmetic result goes through the context: Python's default context keeps 28
  significant digits, rounds half to even, and has the exponent limits below. This is
  \<^verbatim>\<open>Decimal._fix\<close> for a context of precision \<open>prec\<close>: a result with more digits
  than the precision is rounded, a result too large for the exponent limit raises
  \<^verbatim>\<open>decimal.Overflow\<close> (a trap of the default context), a result too small is
  rounded at the smallest exponent.
\<close>

definition Emax :: int where
  "Emax = 999999"

definition Emin :: int where
  "Emin = - 999999"

definition Etiny :: "int \<Rightarrow> int" where
  "Etiny prec = Emin - prec + 1"

definition Etop :: "int \<Rightarrow> int" where
  "Etop prec = Emax - prec + 1"

text \<open>\<^verbatim>\<open>len(str(n))\<close>, the number of digits of a coefficient.\<close>

function ndigits :: "int \<Rightarrow> nat" where
  "ndigits n = (if n < 10 then 1 else Suc (ndigits (n div 10)))"
  by pat_completeness auto
termination
  by (relation "measure nat") auto

declare ndigits.simps [simp del]

text \<open>Dropping the last \<open>k\<close> digits of a magnitude, \<^verbatim>\<open>ROUND_HALF_EVEN\<close>.\<close>

definition round_half_even :: "int \<Rightarrow> nat \<Rightarrow> int" where
  "round_half_even m k =
     (let q = m div 10 ^ k; r = m mod 10 ^ k
      in if 2 * r > 10 ^ k \<or> (2 * r = 10 ^ k \<and> odd q) then q + 1 else q)"

definition dec_fix :: "int \<Rightarrow> decimal \<Rightarrow> py_error + decimal" where
  "dec_fix prec self =
     (if coef self = 0
      then Inr (Decimal 0 (min (max (expo self) (Etiny prec)) Emax))
      else
        let len = int (ndigits \<bar>coef self\<bar>);
            exp_min = len + expo self - prec
        in if exp_min > Etop prec then Inl Overflow
           else
             let exp_min = max exp_min (Etiny prec)
             in if expo self < exp_min
                then
                  (let coeff = round_half_even \<bar>coef self\<bar> (nat (exp_min - expo self));
                       carried = (int (ndigits coeff) > prec);
                       coeff = (if carried then coeff div 10 else coeff);
                       exp_min = (if carried then exp_min + 1 else exp_min)
                   in if exp_min > Etop prec then Inl Overflow
                      else Inr (Decimal (sgn (coef self) * coeff) exp_min))
                else Inr self)"

text \<open>\<^verbatim>\<open>n * d\<close> for an int and a Decimal: the int becomes a Decimal of exponent 0,
  coefficients multiply, exponents add, and the product goes through the context.\<close>

definition int_mul_dec :: "int \<Rightarrow> decimal \<Rightarrow> py_error + decimal" where
  "int_mul_dec n d = dec_fix 28 (Decimal (n * coef d) (expo d))"

text \<open>\<^verbatim>\<open>a + b\<close> on Decimals: both are brought to the smaller exponent and the sum goes
  through the context. (Python shortens the alignment when the exponents are far apart;
  the rounded result is the same.)\<close>

definition dec_add :: "decimal \<Rightarrow> decimal \<Rightarrow> py_error + decimal" where
  "dec_add a b =
     (let e = min (expo a) (expo b)
      in dec_fix 28 (Decimal (coef a * 10 ^ nat (expo a - e) + coef b * 10 ^ nat (expo b - e)) e))"

text \<open>A number that is either a Python int or a Decimal: \<^verbatim>\<open>sum\<close> starts from the
  int 0, so the total of an order may be either. An int meeting a Decimal becomes a
  Decimal of exponent 0.\<close>

datatype pynum = PyInt int | PyDec decimal

fun py_add :: "pynum \<Rightarrow> pynum \<Rightarrow> py_error + pynum" where
  "py_add (PyInt a) (PyInt b) = Inr (PyInt (a + b))"
| "py_add (PyInt a) (PyDec d) =
     (case dec_add (Decimal a 0) d of Inl e \<Rightarrow> Inl e | Inr r \<Rightarrow> Inr (PyDec r))"
| "py_add (PyDec d) (PyInt b) =
     (case dec_add d (Decimal b 0) of Inl e \<Rightarrow> Inl e | Inr r \<Rightarrow> Inr (PyDec r))"
| "py_add (PyDec c) (PyDec d) =
     (case dec_add c d of Inl e \<Rightarrow> Inl e | Inr r \<Rightarrow> Inr (PyDec r))"

fun py_val :: "pynum \<Rightarrow> rat" where
  "py_val (PyInt n) = of_int n"
| "py_val (PyDec d) = dec_val d"

section \<open>Order line items\<close>

text \<open>
  \<^verbatim>\<open>ItemProductoPedido\<close> and \<^verbatim>\<open>ItemServicioPedido\<close>. The foreign keys hold the
  primary key of the row they point to; \<open>precio_unitario\<close> is \<open>None\<close> on an instance
  built without a unit price. Field names carry the prefix of their class.
\<close>

record item_producto_pedido =
  ipp_id :: "nat option"
  ipp_pedido :: nat
  ipp_producto :: nat
  ipp_cantidad :: int
  ipp_precio_unitario :: "decimal option"

record item_servicio_pedido =
  isp_id :: "nat option"
  isp_pedido :: nat
  isp_servicio :: nat
  isp_cantidad :: int
  isp_precio_unitario :: "decimal option"

text \<open>\<^verbatim>\<open>return self.cantidad * self.precio_unitario\<close>; an int times \<open>None\<close> raises
  \<^verbatim>\<open>TypeError\<close>, an int times a Decimal is the product in the context.\<close>

definition ItemProductoPedido_subtotal :: "item_producto_pedido \<Rightarrow> py_error + decimal" where
  "ItemProductoPedido_subtotal self =
     (case ipp_precio_unitario self of
        None \<Rightarrow> Inl TypeError
      | Some p \<Rightarrow> int_mul_dec (ipp_cantidad self) p)"

definition ItemServicioPedido_subtotal :: "item_servicio_pedido \<Rightarrow> py_error + decimal" where
  "ItemServicioPedido_subtotal self =
     (case isp_precio_unitario self of
        None \<Rightarrow> Inl TypeError
      | Some p \<Rightarrow> int_mul_dec (isp_cantidad self) p)"

text \<open>The row of a \<^verbatim>\<open>Pedido\<close>; the creation time is kept as a number.\<close>

record pedido =
  pd_id :: nat
  pd_cliente :: nat
  pd_fecha_pedido :: int
  pd_estado :: string
  pd_observaciones :: string

section \<open>Clients\<close>

text \<open>A \<^verbatim>\<open>datetime.date\<close> is year, month and day; Python orders dates as it orders
  these triples, the year first.\<close>

type_synonym date = "int \<times> int \<times> int"

record cliente =
  cl_id :: nat
  cl_nombre :: string
  cl_encargado :: string
  cl_presupuesto :: decimal
  cl_email_contacto :: string
  cl_fecha_vencimiento_presupuesto :: date

text \<open>\<^verbatim>\<open>return timezone.now().date() > self.fecha_vencimiento_presupuesto\<close>; the date
  the clock gives is the argument \<open>today\<close>.\<close>

definition Cliente_presupuesto_vencido :: "date \<Rightarrow> cliente \<Rightarrow> bool" where
  "Cliente_presupuesto_vencido today self = (today > cl_fecha_vencimiento_presupuesto self)"

section \<open>Hardware products and services\<close>

record producto_hardware =
  ph_id :: nat
  ph_nombre :: string
  ph_tipo :: string
  ph_tipo_personalizado :: string
  ph_precio :: decimal
  ph_empresa_proveedora :: "nat option"
  ph_categoria :: "nat option"
  ph_activo :: bool

record caracteristica_producto_hardware =
  cp_id :: nat
  cp_attr :: string
  cp_valor :: string
  cp_producto_hardware :: nat

record servicio_informatico =
  si_id :: nat
  si_nombre :: string
  si_duracion :: int
  si_unidad_duracion :: string
  si_descripcion :: string
  si_precio :: decimal
  si_observaciones :: string
  si_empresa_proveedora :: nat
  si_activo :: bool

definition TIPO_PRODUCTO_CHOICES :: "(string \<times> string) list" where
  "TIPO_PRODUCTO_CHOICES =
     [(''switch'', ''Switch''),
      (''disco_duro'', ''Disco Duro''),
      (''ram'', ''RAM''),
      (''impresora'', ''Impresora''),
      (''teclado'', ''Teclado''),
      (''mouse'', ''Mouse''),
      (''ordenador'', ''Ordenador''),
      (''laptop'', ''Laptop''),
      (''otros'', ''Otros'')]"

text \<open>Django's \<^verbatim>\<open>get_tipo_display()\<close>: the label of the stored value, and the value
  itself when it is not among the choices.\<close>

definition get_tipo_display :: "producto_hardware \<Rightarrow> string" where
  "get_tipo_display self =
     (case map_of TIPO_PRODUCTO_CHOICES (ph_tipo self) of
        Some label \<Rightarrow> label
      | None \<Rightarrow> ph_tipo self)"

definition tipo_seleccion :: "producto_hardware \<Rightarrow> string" where
  "tipo_seleccion self =
     (if ph_tipo self = ''otros'' \<and> ph_tipo_personalizado self \<noteq> []
      then ph_tipo_personalizado self
      else get_tipo_display self)"

text \<open>A \<^verbatim>\<open>ValidationError\<close> carries one message, or a dictionary from field names to
  messages.\<close>

datatype validation_error =
    ValidationError string
  | ValidationErrorDict "(string \<times> string) list"

definition MSG_TIPO_PERSONALIZADO :: string where
  \<open>MSG_TIPO_PERSONALIZADO =
     ''Debe especificar un tipo personalizado cuando selecciona "Otros"''\<close>

definition MSG_PRECIO :: string where
  "MSG_PRECIO = ''El precio debe ser mayor a cero.''"

text \<open>\<^verbatim>\<open>ProductoHardware.clean\<close>.\<close>

definition ProductoHardware_clean :: "producto_hardware \<Rightarrow> validation_error + unit" where
  "ProductoHardware_clean self =
     (if ph_tipo self = ''otros'' \<and> \<not> ph_tipo_personalizado self \<noteq> []
      then Inl (ValidationErrorDict [(''tipo_personalizado'', MSG_TIPO_PERSONALIZADO)])
      else Inr ())"

section \<open>Forms\<close>

text \<open>
  The \<^verbatim>\<open>cleaned_data\<close> of a \<^verbatim>\<open>ProductoHardwareForm\<close>, one entry for each field of
  the form. \<open>None\<close> is what \<^verbatim>\<open>cleaned_data.get(name)\<close> returns: the key is absent
  (the field did not validate) or holds \<^verbatim>\<open>None\<close>. The form's errors map a field name
  to its messages, in the order they were added.
\<close>

record producto_cleaned_data =
  cd_nombre :: "string option"
  cd_tipo :: "string option"
  cd_tipo_personalizado :: "string option"
  cd_precio :: "decimal option"
  cd_empresa_proveedora :: "nat option"
  cd_categoria :: "nat option"
  cd_activo :: "bool option"

record producto_hardware_form =
  cleaned_data :: producto_cleaned_data
  form_errors :: "(string \<times> string list) list"

definition cd_delete :: "string \<Rightarrow> producto_cleaned_data \<Rightarrow> producto_cleaned_data" where
  "cd_delete field cd =
     (if field = ''nombre'' then cd\<lparr>cd_nombre := None\<rparr>
      else if field = ''tipo'' then cd\<lparr>cd_tipo := None\<rparr>
      else if field = ''tipo_personalizado'' then cd\<lparr>cd_tipo_personalizado := None\<rparr>
      else if field = ''precio'' then cd\<lparr>cd_precio := None\<rparr>
      else if field = ''empresa_proveedora'' then cd\<lparr>cd_empresa_proveedora := None\<rparr>
      else if field = ''categoria'' then cd\<lparr>cd_categoria := None\<rparr>
      else if field = ''activo'' then cd\<lparr>cd_activo := None\<rparr>
      else cd)"

text \<open>Django's \<^verbatim>\<open>add_error(field, message)\<close>: the message joins the field's list and
  the field leaves \<^verbatim>\<open>cleaned_data\<close>.\<close>

definition add_error :: "string \<Rightarrow> string \<Rightarrow> producto_hardware_form \<Rightarrow> producto_hardware_form" where
  "add_error field msg f =
     f\<lparr>form_errors :=
         (case map_of (form_errors f) field of
            None \<Rightarrow> form_errors f @ [(field, [msg])]
          | Some _ \<Rightarrow> map (\<lambda>(k, ms). if k = field then (k, ms @ [msg]) else (k, ms)) (form_errors f)),
       cleaned_data := cd_delete field (cleaned_data f)\<rparr>"

definition str_truthy :: "string option \<Rightarrow> bool" where
  "str_truthy v = (case v of None \<Rightarrow> False | Some s \<Rightarrow> s \<noteq> [])"

text \<open>\<^verbatim>\<open>ProductoHardwareForm.clean\<close>: \<open>tipo\<close> and \<open>tipo_personalizado\<close> are read
  once, before either branch; the result is the form with the \<^verbatim>\<open>cleaned_data\<close> the
  method returns.\<close>

definition ProductoHardwareForm_clean :: "producto_hardware_form \<Rightarrow> producto_hardware_form" where
  "ProductoHardwareForm_clean self =
     (let tipo = cd_tipo (cleaned_data self);
          tipo_personalizado = cd_tipo_personalizado (cleaned_data self);
          self1 = (if tipo = Some ''otros'' \<and> \<not> str_truthy tipo_personalizado
                   then add_error ''tipo_personalizado'' MSG_TIPO_PERSONALIZADO self
                   else self)
      in if tipo \<noteq> Some ''otros'' \<and> str_truthy tipo_personalizado
         then self1\<lparr>cleaned_data := (cleaned_data self1)\<lparr>cd_tipo_personalizado := Some []\<rparr>\<rparr>
         else self1)"

text \<open>\<^verbatim>\<open>is_valid()\<close>: the form has no errors.\<close>

definition is_valid :: "producto_hardware_form \<Rightarrow> bool" where
  "is_valid f = (form_errors f = [])"

text \<open>
  \<^verbatim>\<open>clean_precio\<close>, written twice with the same text, in \<^verbatim>\<open>ProductoHardwareForm\<close>
  and in \<^verbatim>\<open>ServicioInformaticoForm\<close>; the argument is what
  \<^verbatim>\<open>self.cleaned_data.get('precio')\<close> returns. In \<^verbatim>\<open>if precio and precio <= 0\<close>
  both \<open>None\<close> and a zero Decimal are falsy.
\<close>

definition ProductoHardwareForm_clean_precio ::
    "decimal option \<Rightarrow> validation_error + decimal option" where
  "ProductoHardwareForm_clean_precio precio =
     (if (case precio of None \<Rightarrow> False | Some d \<Rightarrow> dec_truthy d) \<and>
         (case precio of None \<Rightarrow> False | Some d \<Rightarrow> dec_le_zero d)
      then Inl (ValidationError MSG_PRECIO)
      else Inr precio)"

definition ServicioInformaticoForm_clean_precio ::
    "decimal option \<Rightarrow> validation_error + decimal option" where
  "ServicioInformaticoForm_clean_precio precio =
     (if (case precio of None \<Rightarrow> False | Some d \<Rightarrow> dec_truthy d) \<and>
         (case precio of None \<Rightarrow> False | Some d \<Rightarrow> dec_le_zero d)
      then Inl (ValidationError MSG_PRECIO)
      else Inr precio)"

text \<open>The check of the stored field, \<^verbatim>\<open>MinValueValidator(0)\<close>: the value may not be
  below 0.\<close>

definition MinValueValidator_0 :: "decimal \<Rightarrow> bool" where
  "MinValueValidator_0 d = (0 \<le> coef d)"

section \<open>The entity store\<close>

text \<open>
  The tables the modelled code reads and writes, each a list of rows in storage order.
  A foreign key is the primary key of the row it points to.
\<close>

record db =
  db_productos :: "producto_hardware list"
  db_caracteristicas :: "caracteristica_producto_hardware list"
  db_servicios :: "servicio_informatico list"
  db_pedidos :: "pedido list"
  db_items_productos :: "item_producto_pedido list"
  db_items_servicios :: "item_servicio_pedido list"

definition find_producto :: "db \<Rightarrow> nat \<Rightarrow> producto_hardware option" where
  "find_producto d pk = find (\<lambda>p. ph_id p = pk) (db_productos d)"

definition find_servicio :: "db \<Rightarrow> nat \<Rightarrow> servicio_informatico option" where
  "find_servicio d pk = find (\<lambda>s. si_id s = pk) (db_servicios d)"

definition find_pedido :: "db \<Rightarrow> nat \<Rightarrow> pedido option" where
  "find_pedido d pk = find (\<lambda>p. pd_id p = pk) (db_pedidos d)"

text \<open>The primary key an insert gives to a new row: one more than every key in use.\<close>

definition next_id :: "nat option list \<Rightarrow> nat" where
  "next_id ids = Suc (fold (\<lambda>i m. case i of None \<Rightarrow> m | Some k \<Rightarrow> max k m) ids 0)"

text \<open>
  \<^verbatim>\<open>super().save()\<close> of a line item, Django's \<^verbatim>\<open>Model.save\<close> on the store: the
  column \<open>precio_unitario\<close> is not null, both foreign keys must point to a row, no other
  row may have the same order and product (\<^verbatim>\<open>unique_together = ['pedido', 'producto']\<close>,
  and \<^verbatim>\<open>['pedido', 'servicio']\<close> for a service line), and the row is inserted under a
  new key when the instance has none, written over the row of its key otherwise.
\<close>

definition unique_together_item_producto :: "db \<Rightarrow> item_producto_pedido \<Rightarrow> bool" where
  "unique_together_item_producto d self =
     (\<not> (\<exists>r \<in> set (db_items_productos d).
            ipp_pedido r = ipp_pedido self \<and> ipp_producto r = ipp_producto self
            \<and> ipp_id r \<noteq> ipp_id self))"

definition unique_together_item_servicio :: "db \<Rightarrow> item_servicio_pedido \<Rightarrow> bool" where
  "unique_together_item_servicio d self =
     (\<not> (\<exists>r \<in> set (db_items_servicios d).
            isp_pedido r = isp_pedido self \<and> isp_servicio r = isp_servicio self
            \<and> isp_id r \<noteq> isp_id self))"

definition Model_save_item_producto ::
    "db \<Rightarrow> item_producto_pedido \<Rightarrow> py_error + (item_producto_pedido \<times> db)" where
  "Model_save_item_producto d self =
     (if ipp_precio_unitario self = None
         \<or> find_pedido d (ipp_pedido self) = None
         \<or> find_producto d (ipp_producto self) = None
         \<or> \<not> unique_together_item_producto d self
      then Inl IntegrityError
      else
        (case ipp_id self of
           None \<Rightarrow>
             (let self' = self\<lparr>ipp_id := Some (next_id (map ipp_id (db_items_productos d)))\<rparr>
              in Inr (self', d\<lparr>db_items_productos := db_items_productos d @ [self']\<rparr>))
         | Some k \<Rightarrow>
             (if Some k \<in> set (map ipp_id (db_items_productos d))
              then Inr (self, d\<lparr>db_items_productos :=
                          map (\<lambda>r. if ipp_id r = Some k then self else r) (db_items_productos d)\<rparr>)
              else Inr (self, d\<lparr>db_items_productos := db_items_productos d @ [self]\<rparr>))))"

definition Model_save_item_servicio ::
    "db \<Rightarrow> item_servicio_pedido \<Rightarrow> py_error + (item_servicio_pedido \<times> db)" where
  "Model_save_item_servicio d self =
     (if isp_precio_unitario self = None
         \<or> find_pedido d (isp_pedido self) = None
         \<or> find_servicio d (isp_servicio self) = None
         \<or> \<not> unique_together_item_servicio d self
      then Inl IntegrityError
      else
        (case isp_id self of
           None \<Rightarrow>
             (let self' = self\<lparr>isp_id := Some (next_id (map isp_id (db_items_servicios d)))\<rparr>
              in Inr (self', d\<lparr>db_items_servicios := db_items_servicios d @ [self']\<rparr>))
         | Some k \<Rightarrow>
             (if Some k \<in> set (map isp_id (db_items_servicios d))
              then Inr (self, d\<lparr>db_items_servicios :=
                          map (\<lambda>r. if isp_id r = Some k then self else r) (db_items_servicios d)\<rparr>)
              else Inr (self, d\<lparr>db_items_servicios := db_items_servicios d @ [self]\<rparr>))))"

text \<open>
  \<^verbatim>\<open>ItemProductoPedido.save\<close> and \<^verbatim>\<open>ItemServicioPedido.save\<close>.
  \<^verbatim>\<open>not self.precio_unitario\<close> holds for \<open>None\<close> and for a zero Decimal;
  \<^verbatim>\<open>self.producto\<close> reads the product of the foreign key from the store and raises
  \<^verbatim>\<open>DoesNotExist\<close> when there is none.
\<close>

definition precio_falsy :: "decimal option \<Rightarrow> bool" where
  "precio_falsy v = (case v of None \<Rightarrow> True | Some p \<Rightarrow> \<not> dec_truthy p)"

definition ItemProductoPedido_save ::
    "db \<Rightarrow> item_producto_pedido \<Rightarrow> py_error + (item_producto_pedido \<times> db)" where
  "ItemProductoPedido_save d self =
     (if precio_falsy (ipp_precio_unitario self)
      then (case find_producto d (ipp_producto self) of
              None \<Rightarrow> Inl DoesNotExist
            | Some producto \<Rightarrow>
                Model_save_item_producto d (self\<lparr>ipp_precio_unitario := Some (ph_precio producto)\<rparr>))
      else Model_save_item_producto d self)"

definition ItemServicioPedido_save ::
    "db \<Rightarrow> item_servicio_pedido \<Rightarrow> py_error + (item_servicio_pedido \<times> db)" where
  "ItemServicioPedido_save d self =
     (if precio_falsy (isp_precio_unitario self)
      then (case find_servicio d (isp_servicio self) of
              None \<Rightarrow> Inl DoesNotExist
            | Some servicio \<Rightarrow>
                Model_save_item_servicio d (self\<lparr>isp_precio_unitario := Some (si_precio servicio)\<rparr>))
      else Model_save_item_servicio d self)"

text \<open>
  Saving a product or a service that was loaded from the store (neither class overrides
  \<^verbatim>\<open>save\<close>): the row of its key is written over, or added when the key is new, unless
  another row has the same name and supplier (\<^verbatim>\<open>unique_together\<close>; a product without
  supplier never collides, as SQL compares nulls).
\<close>

definition Model_save_producto :: "db \<Rightarrow> producto_hardware \<Rightarrow> py_error + db" where
  "Model_save_producto d self =
     (if \<exists>r \<in> set (db_productos d).
           ph_nombre r = ph_nombre self \<and> ph_empresa_proveedora self \<noteq> None
           \<and> ph_empresa_proveedora r = ph_empresa_proveedora self \<and> ph_id r \<noteq> ph_id self
      then Inl IntegrityError
      else if ph_id self \<in> set (map ph_id (db_productos d))
      then Inr (d\<lparr>db_productos :=
                   map (\<lambda>r. if ph_id r = ph_id self then self else r) (db_productos d)\<rparr>)
      else Inr (d\<lparr>db_productos := db_productos d @ [self]\<rparr>))"

definition Model_save_servicio :: "db \<Rightarrow> servicio_informatico \<Rightarrow> py_error + db" where
  "Model_save_servicio d self =
     (if \<exists>r \<in> set (db_servicios d).
           si_nombre r = si_nombre self
           \<and> si_empresa_proveedora r = si_empresa_proveedora self \<and> si_id r \<noteq> si_id self
      then Inl IntegrityError
      else if si_id self \<in> set (map si_id (db_servicios d))
      then Inr (d\<lparr>db_servicios :=
                   map (\<lambda>r. if si_id r = si_id self then self else r) (db_servicios d)\<rparr>)
      else Inr (d\<lparr>db_servicios := db_servicios d @ [self]\<rparr>))"

section \<open>Saving a product through its form\<close>




section \<open>The total of an order\<close>

text \<open>\<^verbatim>\<open>self.items_productos.all()\<close> and \<^verbatim>\<open>self.items_servicios.all()\<close>: the rows
  whose \<open>pedido\<close> is this order.\<close>

definition items_productos_all :: "db \<Rightarrow> pedido \<Rightarrow> item_producto_pedido list" where
  "items_productos_all d self = filter (\<lambda>i. ipp_pedido i = pd_id self) (db_items_productos d)"

definition items_servicios_all :: "db \<Rightarrow> pedido \<Rightarrow> item_servicio_pedido list" where
  "items_servicios_all d self = filter (\<lambda>i. isp_pedido i = pd_id self) (db_items_servicios d)"

text \<open>
  Iterating the query builds an instance from each row. For the column of a
  \<^verbatim>\<open>DecimalField(max_digits=10, decimal_places=2)\<close> Django's SQLite backend (the
  backend Django uses unless the settings, which are not among the sources, choose
  another) converts the stored number with
  \<^verbatim>\<open>quantize(Decimal('0.01'), context=Context(prec=10))\<close>: the number is brought to two
  places, rounding half to even, and \<^verbatim>\<open>decimal.InvalidOperation\<close> is raised when that
  takes more than ten digits. The stored number is taken as it was written (SQLite
  itself keeps 15 significant digits of it). A null stays \<open>None\<close>.
\<close>

definition DecimalField_from_db :: "decimal \<Rightarrow> py_error + decimal" where
  "DecimalField_from_db v =
     (if coef v = 0 then Inr (Decimal 0 (- 2))
      else
        let len = int (ndigits \<bar>coef v\<bar>)
        in if len + expo v - 1 > Emax \<or> len + expo v + 2 > 10 then Inl InvalidOperation
           else
             let ans = (if - 2 \<le> expo v then \<bar>coef v\<bar> * 10 ^ nat (expo v + 2)
                        else round_half_even \<bar>coef v\<bar> (nat (- 2 - expo v)))
             in if int (ndigits ans) > 10 then Inl InvalidOperation
                else Inr (Decimal (sgn (coef v) * ans) (- 2)))"

definition ItemProductoPedido_from_db ::
    "item_producto_pedido \<Rightarrow> py_error + item_producto_pedido" where
  "ItemProductoPedido_from_db row =
     (case ipp_precio_unitario row of
        None \<Rightarrow> Inr row
      | Some v \<Rightarrow>
          (case DecimalField_from_db v of
             Inl e \<Rightarrow> Inl e
           | Inr p \<Rightarrow> Inr (row\<lparr>ipp_precio_unitario := Some p\<rparr>)))"

definition ItemServicioPedido_from_db ::
    "item_servicio_pedido \<Rightarrow> py_error + item_servicio_pedido" where
  "ItemServicioPedido_from_db row =
     (case isp_precio_unitario row of
        None \<Rightarrow> Inr row
      | Some v \<Rightarrow>
          (case DecimalField_from_db v of
             Inl e \<Rightarrow> Inl e
           | Inr p \<Rightarrow> Inr (row\<lparr>isp_precio_unitario := Some p\<rparr>)))"

text \<open>The rows of a query as instances, in order; the first row that cannot be
  converted raises.\<close>

fun fetch_all :: "('a \<Rightarrow> py_error + 'a) \<Rightarrow> 'a list \<Rightarrow> py_error + 'a list" where
  "fetch_all from_db [] = Inr []"
| "fetch_all from_db (row # rows) =
     (case from_db row of
        Inl e \<Rightarrow> Inl e
      | Inr x \<Rightarrow> (case fetch_all from_db rows of Inl e \<Rightarrow> Inl e | Inr xs \<Rightarrow> Inr (x # xs)))"

text \<open>\<^verbatim>\<open>sum(...)\<close> over the subtotals as the generator yields them: it starts from the
  int 0 and stops at the first subtotal, or the first addition, that raises.\<close>

fun py_sum :: "pynum \<Rightarrow> (py_error + decimal) list \<Rightarrow> py_error + pynum" where
  "py_sum acc [] = Inr acc"
| "py_sum acc (Inl e # xs) = Inl e"
| "py_sum acc (Inr x # xs) =
     (case py_add acc (PyDec x) of Inl e \<Rightarrow> Inl e | Inr acc' \<Rightarrow> py_sum acc' xs)"

definition Pedido_total_pedido :: "db \<Rightarrow> pedido \<Rightarrow> py_error + pynum" where
  "Pedido_total_pedido d self =
     (case fetch_all ItemProductoPedido_from_db (items_productos_all d self) of
        Inl e \<Rightarrow> Inl e
      | Inr items_productos \<Rightarrow>
     (case py_sum (PyInt 0) (map ItemProductoPedido_subtotal items_productos) of
        Inl e \<Rightarrow> Inl e
      | Inr total_productos \<Rightarrow>
     (case fetch_all ItemServicioPedido_from_db (items_servicios_all d self) of
        Inl e \<Rightarrow> Inl e
      | Inr items_servicios \<Rightarrow>
     (case py_sum (PyInt 0) (map ItemServicioPedido_subtotal items_servicios) of
        Inl e \<Rightarrow> Inl e
      | Inr total_servicios \<Rightarrow> py_add total_productos total_servicios))))"

text \<open>
  What the column holds when it was filled within its declaration: a price of two
  places and at most ten digits. \<open>centimos\<close> is the size of a line's subtotal counted
  in hundredths, and \<open>centimos_pedido\<close> the sizes of all the lines of an order added up.
\<close>

definition precio_en_columna :: "decimal option \<Rightarrow> bool" where
  "precio_en_columna v =
     (case v of None \<Rightarrow> False | Some p \<Rightarrow> expo p = - 2 \<and> \<bar>coef p\<bar> < 10 ^ 10)"

definition centimos :: "int \<Rightarrow> decimal option \<Rightarrow> int" where
  "centimos cantidad v = (case v of None \<Rightarrow> 0 | Some p \<Rightarrow> \<bar>cantidad * coef p\<bar>)"

definition centimos_pedido :: "db \<Rightarrow> pedido \<Rightarrow> int" where
  "centimos_pedido d self =
     sum_list (map (\<lambda>i. centimos (ipp_cantidad i) (ipp_precio_unitario i))
                 (items_productos_all d self))
     + sum_list (map (\<lambda>i. centimos (isp_cantidad i) (isp_precio_unitario i))
                   (items_servicios_all d self))"

definition lineas_en_columna :: "db \<Rightarrow> pedido \<Rightarrow> bool" where
  "lineas_en_columna d self =
     ((\<forall>i \<in> set (items_productos_all d self). precio_en_columna (ipp_precio_unitario i)) \<and>
      (\<forall>i \<in> set (items_servicios_all d self). precio_en_columna (isp_precio_unitario i)))"

text \<open>A running total that is still the int 0, or a Decimal of \<open>k\<close> hundredths.\<close>

definition en_centimos :: "pynum \<Rightarrow> int \<Rightarrow> bool" where
  "en_centimos t k = (t = PyInt 0 \<and> k = 0 \<or> t = PyDec (Decimal k (- 2)))"

section \<open>The product list\<close>

text \<open>
  The query parameters \<^verbatim>\<open>get_queryset\<close> reads, each \<^verbatim>\<open>request.GET.get(name, '')\<close>.
\<close>

record producto_list_request =
  get_tipo :: string
  get_categoria :: string
  get_empresa :: string
  get_search :: string

text \<open>
  \<^verbatim>\<open>icontains\<close>, which Django's SQLite backend writes as a \<^verbatim>\<open>LIKE\<close> with the text
  between wildcards: the searched text occurs in the field, upper and lower case ASCII
  letters taken as equal and every other character compared as it is. Texts are their
  UTF-8 bytes; a letter outside ASCII is two bytes or more, none of them an ASCII letter.
\<close>

definition ascii_lower :: "char \<Rightarrow> char" where
  "ascii_lower c =
     (let n = (of_char c :: nat)
      in if 65 \<le> n \<and> n \<le> 90 then char_of (n + 32) else c)"

definition icontains :: "string \<Rightarrow> string \<Rightarrow> bool" where
  "icontains field q = sublist (map ascii_lower q) (map ascii_lower field)"

text \<open>
  The rows of the joined query: \<^verbatim>\<open>caracteristicas__...\<close> inside an \<^verbatim>\<open>OR\<close> joins
  each product with each of its characteristics, and with no characteristic at all when
  it has none (a left outer join).
\<close>

definition caracteristicas_of ::
    "db \<Rightarrow> producto_hardware \<Rightarrow> caracteristica_producto_hardware list" where
  "caracteristicas_of d p = filter (\<lambda>c. cp_producto_hardware c = ph_id p) (db_caracteristicas d)"

definition join_caracteristicas ::
    "db \<Rightarrow> producto_hardware list \<Rightarrow>
      (producto_hardware \<times> caracteristica_producto_hardware option) list" where
  "join_caracteristicas d ps =
     concat (map (\<lambda>p. case caracteristicas_of d p of
                         [] \<Rightarrow> [(p, None)]
                       | cs \<Rightarrow> map (\<lambda>c. (p, Some c)) cs) ps)"

definition search_Q ::
    "string \<Rightarrow> producto_hardware \<times> caracteristica_producto_hardware option \<Rightarrow> bool" where
  "search_Q q row =
     (case row of (p, c) \<Rightarrow>
        icontains (ph_nombre p) q
        \<or> icontains (ph_tipo_personalizado p) q
        \<or> (case c of None \<Rightarrow> False | Some c \<Rightarrow> icontains (cp_attr c) q)
        \<or> (case c of None \<Rightarrow> False | Some c \<Rightarrow> icontains (cp_valor c) q))"

text \<open>
  \<^verbatim>\<open>ProductoHardwareListView.get_queryset\<close>. The two key filters compare a key with
  the number Django reads from the parameter's text; \<open>to_int\<close> is that reading
  (Python's \<^verbatim>\<open>int\<close>), \<open>None\<close> where it raises \<^verbatim>\<open>ValueError\<close>. \<^verbatim>\<open>distinct()\<close>
  keeps one copy of each selected product row. \<^verbatim>\<open>select_related\<close> and
  \<^verbatim>\<open>prefetch_related\<close> load related rows and select nothing; the order of the result
  is left as the storage order.
\<close>

definition get_queryset ::
    "(string \<Rightarrow> int option) \<Rightarrow> db \<Rightarrow> producto_list_request \<Rightarrow> py_error + producto_hardware list" where
  "get_queryset to_int d request =
     (let queryset = filter (\<lambda>p. ph_activo p) (db_productos d);
          tipo_filter = get_tipo request;
          categoria_filter = get_categoria request;
          empresa_filter = get_empresa request;
          search_query = get_search request;
          queryset = (if tipo_filter \<noteq> [] then filter (\<lambda>p. ph_tipo p = tipo_filter) queryset
                      else queryset)
      in case (if categoria_filter \<noteq> []
               then (case to_int categoria_filter of
                       None \<Rightarrow> Inl ValueError
                     | Some k \<Rightarrow>
                         Inr (filter (\<lambda>p. map_option int (ph_categoria p) = Some k) queryset))
               else Inr queryset) of
           Inl e \<Rightarrow> Inl e
         | Inr queryset \<Rightarrow>
             (case (if empresa_filter \<noteq> []
                    then (case to_int empresa_filter of
                            None \<Rightarrow> Inl ValueError
                          | Some k \<Rightarrow>
                              Inr (filter (\<lambda>p. map_option int (ph_empresa_proveedora p) = Some k)
                                     queryset))
                    else Inr queryset) of
                Inl e \<Rightarrow> Inl e
              | Inr queryset \<Rightarrow>
                  Inr (if search_query \<noteq> []
                       then remdups (map fst (filter (search_Q search_query)
                                                (join_caracteristicas d queryset)))
                       else queryset)))"

section \<open>A small store\<close>

text \<open>
  One supplier's catalogue and one order, used to run the definitions: an active router
  with two characteristics, a laptop taken off sale with one, an installation service,
  and order 1 with three routers at 19.99 and two installations at 50.00.
\<close>

definition ex_router :: producto_hardware where
  "ex_router =
     \<lparr>ph_id = 1, ph_nombre = ''Router AX'', ph_tipo = ''otros'',
      ph_tipo_personalizado = ''Router Mesh'', ph_precio = Decimal 1999 (- 2),
      ph_empresa_proveedora = Some 1, ph_categoria = Some 2, ph_activo = True\<rparr>"

definition ex_laptop :: producto_hardware where
  "ex_laptop =
     \<lparr>ph_id = 2, ph_nombre = ''Laptop Pro'', ph_tipo = ''laptop'',
      ph_tipo_personalizado = ''ignored'', ph_precio = Decimal 120000 (- 2),
      ph_empresa_proveedora = Some 1, ph_categoria = None, ph_activo = False\<rparr>"

definition ex_banda :: caracteristica_producto_hardware where
  "ex_banda = \<lparr>cp_id = 1, cp_attr = ''Banda'', cp_valor = ''WiFi 6'', cp_producto_hardware = 1\<rparr>"

definition ex_modo :: caracteristica_producto_hardware where
  "ex_modo = \<lparr>cp_id = 2, cp_attr = ''Modo wifi'', cp_valor = ''Mesh'', cp_producto_hardware = 1\<rparr>"

definition ex_disco :: caracteristica_producto_hardware where
  "ex_disco = \<lparr>cp_id = 3, cp_attr = ''Disco'', cp_valor = ''SSD 512GB'', cp_producto_hardware = 2\<rparr>"

definition ex_instalacion :: servicio_informatico where
  "ex_instalacion =
     \<lparr>si_id = 1, si_nombre = ''Instalacion'', si_duracion = 2, si_unidad_duracion = ''horas'',
      si_descripcion = ''Instalacion de red'', si_precio = Decimal 5000 (- 2),
      si_observaciones = [], si_empresa_proveedora = 1, si_activo = True\<rparr>"

definition ex_pedido :: pedido where
  "ex_pedido =
     \<lparr>pd_id = 1, pd_cliente = 1, pd_fecha_pedido = 0, pd_estado = ''pendiente'',
      pd_observaciones = []\<rparr>"

definition ex_pedido_vacio :: pedido where
  "ex_pedido_vacio =
     \<lparr>pd_id = 2, pd_cliente = 1, pd_fecha_pedido = 1, pd_estado = ''pendiente'',
      pd_observaciones = []\<rparr>"

definition ex_item_router :: item_producto_pedido where
  "ex_item_router =
     \<lparr>ipp_id = Some 1, ipp_pedido = 1, ipp_producto = 1, ipp_cantidad = 3,
      ipp_precio_unitario = Some (Decimal 1999 (- 2))\<rparr>"

definition ex_item_instalacion :: item_servicio_pedido where
  "ex_item_instalacion =
     \<lparr>isp_id = Some 1, isp_pedido = 1, isp_servicio = 1, isp_cantidad = 2,
      isp_precio_unitario = Some (Decimal 5000 (- 2))\<rparr>"

definition ex_db :: db where
  "ex_db =
     \<lparr>db_productos = [ex_router, ex_laptop],
      db_caracteristicas = [ex_banda, ex_modo, ex_disco],
      db_servicios = [ex_instalacion],
      db_pedidos = [ex_pedido, ex_pedido_vacio],
      db_items_productos = [ex_item_router],
      db_items_servicios = [ex_item_instalacion]\<rparr>"

text \<open>A reading of query parameters for the examples: unsigned decimal numerals, and
  \<open>None\<close> for any other text.\<close>

fun digits_value :: "int \<Rightarrow> string \<Rightarrow> int option" where
  "digits_value acc [] = Some acc"
| "digits_value acc (c # cs) =
     (let n = (of_char c :: nat)
      in if 48 \<le> n \<and> n \<le> 57 then digits_value (10 * acc + int (n - 48)) cs else None)"

definition ex_to_int :: "string \<Rightarrow> int option" where
  "ex_to_int s = (if s = [] then None else digits_value 0 s)"

definition ex_request :: "string \<Rightarrow> producto_list_request" where
  "ex_request q = \<lparr>get_tipo = [], get_categoria = [], get_empresa = [], get_search = q\<rparr>"

text \<open>A bound product form whose fields all validated, with the given type and custom
  type.\<close>

definition ex_form :: "string \<Rightarrow> string \<Rightarrow> producto_hardware_form" where
  "ex_form t tp =
     \<lparr>cleaned_data =
        \<lparr>cd_nombre = Some ''Router AX'', cd_tipo = Some t, cd_tipo_personalizado = Some tp,
         cd_precio = Some (Decimal 1999 (- 2)), cd_empresa_proveedora = Some 1,
         cd_categoria = Some 2, cd_activo = Some True\<rparr>,
      form_errors = []\<rparr>"

text \<open>Two lines built without a unit price for order 2, and the store with both stored
  unit prices of order 1 set to zero.\<close>

definition ex_item_nuevo :: item_producto_pedido where
  "ex_item_nuevo =
     \<lparr>ipp_id = None, ipp_pedido = 2, ipp_producto = 1, ipp_cantidad = 1,
      ipp_precio_unitario = None\<rparr>"

definition ex_item_servicio_nuevo :: item_servicio_pedido where
  "ex_item_servicio_nuevo =
     \<lparr>isp_id = None, isp_pedido = 2, isp_servicio = 1, isp_cantidad = 1,
      isp_precio_unitario = None\<rparr>"


text \<open>A request that sets every filter: type, category 2, supplier 1 and a search text.\<close>

definition ex_request_filtros :: producto_list_request where
  "ex_request_filtros =
     \<lparr>get_tipo = ''otros'', get_categoria = ''2'', get_empresa = ''1'', get_search = ''wifi''\<rparr>"

text \<open>Order 1 with two lines of 9223372036854775807 units at 99999999.99, the largest
  quantity and price the columns of an SQLite store take, and order 1 with a line whose
  stored price has eleven digits.\<close>

definition ex_item_grande_1 :: item_producto_pedido where
  "ex_item_grande_1 =
     \<lparr>ipp_id = Some 1, ipp_pedido = 1, ipp_producto = 1, ipp_cantidad = 9223372036854775807,
      ipp_precio_unitario = Some (Decimal 9999999999 (- 2))\<rparr>"

definition ex_item_grande_2 :: item_producto_pedido where
  "ex_item_grande_2 =
     \<lparr>ipp_id = Some 2, ipp_pedido = 1, ipp_producto = 2, ipp_cantidad = 9223372036854775807,
      ipp_precio_unitario = Some (Decimal 9999999999 (- 2))\<rparr>"

definition ex_db_grande :: db where
  "ex_db_grande =
     ex_db\<lparr>db_items_productos := [ex_item_grande_1, ex_item_grande_2],
           db_items_servicios := []\<rparr>"

definition ex_db_once_digitos :: db where
  "ex_db_once_digitos =
     ex_db\<lparr>db_items_productos :=
             [ex_item_router\<lparr>ipp_precio_unitario := Some (Decimal 12345678901 (- 2))\<rparr>]\<rparr>"


text \<open>
  The router with one more characteristic, whose value is the Spanish for "optimal
  signal" in UTF-8: \<open>Se\<close>, n with tilde, \<open>al\<close>, a space, capital O with acute accent,
  \<open>PTIMA\<close>. \<open>ex_optima\<close> is that last word in lower case, small o with acute accent
  first, and \<open>ex_Optima\<close> the same with the capital O with acute accent.
\<close>

definition ex_senal :: caracteristica_producto_hardware where
  "ex_senal =
     \<lparr>cp_id = 4, cp_attr = ''Cobertura'',
      cp_valor = ''Se'' @ [CHR 0xC3, CHR 0xB1] @ ''al '' @ [CHR 0xC3, CHR 0x93] @ ''PTIMA'',
      cp_producto_hardware = 1\<rparr>"

definition ex_optima :: string where
  "ex_optima = [CHR 0xC3, CHR 0xB3] @ ''ptima''"

definition ex_Optima :: string where
  "ex_Optima = [CHR 0xC3, CHR 0x93] @ ''ptima''"

definition ex_db_senal :: db where
  "ex_db_senal = ex_db\<lparr>db_caracteristicas := [ex_banda, ex_modo, ex_disco, ex_senal]\<rparr>"

section \<open>Subtotals within the precision of the context\<close>

text \<open>The context at its edges, with the values Python computes: overflow, rounding at
  the smallest exponent, a zero beyond the largest exponent, a carry into a new digit,
  a tie rounded to even, and a negative product.\<close>

lemma dec_fix_examples:
  "int_mul_dec 10 (Decimal 1 999999) = Inl Overflow"
  "int_mul_dec 1 (Decimal 15 (- 1000027)) = Inr (Decimal 2 (- 1000026))"
  "int_mul_dec 1 (Decimal 25 (- 1000027)) = Inr (Decimal 2 (- 1000026))"
  "int_mul_dec 7 (Decimal 0 2000000) = Inr (Decimal 0 999999)"
  "int_mul_dec 99999999999999999999999999995 (Decimal 1 5) = Inr (Decimal 1000000000000000000000000000 7)"
  "dec_add (Decimal 9999999999999999999999999999 0) (Decimal 5 (- 1)) = Inr (Decimal 1000000000000000000000000000 1)"
  "dec_add (Decimal 9999999999999999999999999998 0) (Decimal 5 (- 1)) = Inr (Decimal 9999999999999999999999999998 0)"
  "int_mul_dec (- 3) (Decimal 1 (- 2)) = Inr (Decimal (- 3) (- 2))"
  by code_simp+

text \<open>Reading a stored price: one that fits, one of eleven digits, two with a third
  place (ties to even), one that reaches eleven digits by rounding, and one stored with
  a positive exponent.\<close>

lemma DecimalField_from_db_examples:
  "DecimalField_from_db (Decimal 1999 (- 2)) = Inr (Decimal 1999 (- 2))"
  "DecimalField_from_db (Decimal 12345678901 (- 2)) = Inl InvalidOperation"
  "DecimalField_from_db (Decimal 1005 (- 3)) = Inr (Decimal 100 (- 2))"
  "DecimalField_from_db (Decimal (- 1015) (- 3)) = Inr (Decimal (- 102) (- 2))"
  "DecimalField_from_db (Decimal 99999999995 (- 3)) = Inl InvalidOperation"
  "DecimalField_from_db (Decimal 5 2) = Inr (Decimal 50000 (- 2))"
  by code_simp+

lemma ndigits_le:
  assumes "m < 10 ^ k" and "0 < k"
  shows "ndigits m \<le> k"
  using assms
proof (induction k arbitrary: m)
  case 0
  then show ?case by simp
next
  case (Suc k)
  show ?case
  proof (cases "m < 10")
    case True
    then show ?thesis by (simp add: ndigits.simps)
  next
    case False
    with Suc.prems have k: "0 < k" by (cases k) auto
    define x :: int where "x = 10 ^ k"
    from Suc.prems have "m < 10 * x" by (simp add: x_def)
    then have "m div 10 < x" by presburger
    then have "ndigits (m div 10) \<le> k" unfolding x_def using k by (rule Suc.IH)
    with False show ?thesis by (subst ndigits.simps) simp
  qed
qed

lemma dec_fix_id:
  assumes "\<bar>coef d\<bar> < 10 ^ nat prec" and "0 < prec"
    and "Etiny prec \<le> expo d" and "expo d \<le> Etop prec"
  shows "dec_fix prec d = Inr d"
proof (cases "coef d = 0")
  case True
  from assms(2,4) have "expo d \<le> Emax" by (simp add: Etop_def)
  with True assms(3) have "dec_fix prec d = Inr (Decimal 0 (expo d))"
    by (simp add: dec_fix_def)
  with True show ?thesis by (cases d) simp
next
  case False
  from assms(1,2) have "ndigits \<bar>coef d\<bar> \<le> nat prec" by (intro ndigits_le) simp_all
  with assms(2) have len: "int (ndigits \<bar>coef d\<bar>) \<le> prec" by simp
  then have "int (ndigits \<bar>coef d\<bar>) + expo d - prec \<le> expo d" by simp
  with assms(3,4)
  have a: "\<not> int (ndigits \<bar>coef d\<bar>) + expo d - prec > Etop prec"
    and b: "\<not> expo d < max (int (ndigits \<bar>coef d\<bar>) + expo d - prec) (Etiny prec)"
    by simp_all
  from False show ?thesis
    unfolding dec_fix_def Let_def by (simp only: a b if_False)
qed

lemma Etiny_28: "Etiny 28 \<le> - 2" and Etop_28: "- 2 \<le> Etop 28"
  by (simp_all add: Etiny_def Etop_def Emin_def Emax_def)

lemma int_mul_dec_exact:
  assumes "\<bar>n * coef p\<bar> < 10 ^ 28" and "Etiny 28 \<le> expo p" and "expo p \<le> Etop 28"
  shows "int_mul_dec n p = Inr (Decimal (n * coef p) (expo p))"
  unfolding int_mul_dec_def using assms by (intro dec_fix_id) simp_all

lemma dec_val_cents: "dec_val (Decimal c (- 2)) = of_int c / 100"
  by (simp add: dec_val_def)

lemma dec_val_scale: "dec_val (Decimal (n * c) e) = of_int n * dec_val (Decimal c e)"
  by (simp add: dec_val_def)

text \<open>
  C2, as the code has it: \<open>subtotal\<close> is \<open>cantidad * precio_unitario\<close> in Python's
  decimal context. When the quantity times the coefficient of the unit price has at most
  28 digits, and the exponent of the price is within the limits of the context (as the
  exponent -2 of every stored price is), the subtotal is the Decimal whose value is
  exactly \<open>cantidad * p\<close>, with the exponent of \<open>p\<close> kept; for quantity 3 and unit
  price 19.99 it is the Decimal 59.97.
\<close>

theorem subtotal_exact:
  "(ipp_precio_unitario ip = Some p \<and> \<bar>ipp_cantidad ip * coef p\<bar> < 10 ^ 28 \<and>
    Etiny 28 \<le> expo p \<and> expo p \<le> Etop 28 \<longrightarrow>
      (\<exists>d. ItemProductoPedido_subtotal ip = Inr d \<and>
           dec_val d = of_int (ipp_cantidad ip) * dec_val p \<and> expo d = expo p)) \<and>
   (isp_precio_unitario isv = Some q \<and> \<bar>isp_cantidad isv * coef q\<bar> < 10 ^ 28 \<and>
    Etiny 28 \<le> expo q \<and> expo q \<le> Etop 28 \<longrightarrow>
      (\<exists>d. ItemServicioPedido_subtotal isv = Inr d \<and>
           dec_val d = of_int (isp_cantidad isv) * dec_val q \<and> expo d = expo q)) \<and>
   ItemProductoPedido_subtotal
     \<lparr>ipp_id = i, ipp_pedido = o1, ipp_producto = r1, ipp_cantidad = 3,
      ipp_precio_unitario = Some (Decimal 1999 (- 2))\<rparr> = Inr (Decimal 5997 (- 2)) \<and>
   ItemServicioPedido_subtotal
     \<lparr>isp_id = j, isp_pedido = o2, isp_servicio = r2, isp_cantidad = 3,
      isp_precio_unitario = Some (Decimal 1999 (- 2))\<rparr> = Inr (Decimal 5997 (- 2)) \<and>
   dec_val (Decimal 5997 (- 2)) = 5997 / 100"
proof (intro conjI impI)
  assume h: "ipp_precio_unitario ip = Some p \<and> \<bar>ipp_cantidad ip * coef p\<bar> < 10 ^ 28 \<and>
    Etiny 28 \<le> expo p \<and> expo p \<le> Etop 28"
  then have "ItemProductoPedido_subtotal ip = Inr (Decimal (ipp_cantidad ip * coef p) (expo p))"
    by (simp add: ItemProductoPedido_subtotal_def int_mul_dec_exact)
  moreover have "dec_val (Decimal (ipp_cantidad ip * coef p) (expo p))
      = of_int (ipp_cantidad ip) * dec_val p"
    by (cases p) (simp add: dec_val_scale)
  ultimately show "\<exists>d. ItemProductoPedido_subtotal ip = Inr d \<and>
           dec_val d = of_int (ipp_cantidad ip) * dec_val p \<and> expo d = expo p"
    by simp
next
  assume h: "isp_precio_unitario isv = Some q \<and> \<bar>isp_cantidad isv * coef q\<bar> < 10 ^ 28 \<and>
    Etiny 28 \<le> expo q \<and> expo q \<le> Etop 28"
  then have "ItemServicioPedido_subtotal isv = Inr (Decimal (isp_cantidad isv * coef q) (expo q))"
    by (simp add: ItemServicioPedido_subtotal_def int_mul_dec_exact)
  moreover have "dec_val (Decimal (isp_cantidad isv * coef q) (expo q))
      = of_int (isp_cantidad isv) * dec_val q"
    by (cases q) (simp add: dec_val_scale)
  ultimately show "\<exists>d. ItemServicioPedido_subtotal isv = Inr d \<and>
           dec_val d = of_int (isp_cantidad isv) * dec_val q \<and> expo d = expo q"
    by simp
next
  show "ItemProductoPedido_subtotal
     \<lparr>ipp_id = i, ipp_pedido = o1, ipp_producto = r1, ipp_cantidad = 3,
      ipp_precio_unitario = Some (Decimal 1999 (- 2))\<rparr> = Inr (Decimal 5997 (- 2))"
    using int_mul_dec_exact [of 3 "Decimal 1999 (- 2)"]
    by (simp add: ItemProductoPedido_subtotal_def Etiny_28 Etop_28)
next
  show "ItemServicioPedido_subtotal
     \<lparr>isp_id = j, isp_pedido = o2, isp_servicio = r2, isp_cantidad = 3,
      isp_precio_unitario = Some (Decimal 1999 (- 2))\<rparr> = Inr (Decimal 5997 (- 2))"
    using int_mul_dec_exact [of 3 "Decimal 1999 (- 2)"]
    by (simp add: ItemServicioPedido_subtotal_def Etiny_28 Etop_28)
next
  show "dec_val (Decimal 5997 (- 2)) = 5997 / 100"
    by (simp add: dec_val_def)
qed

theorem subtotal_exact_witness:
  "ipp_precio_unitario ex_item_router = Some (Decimal 1999 (- 2)) \<and>
   \<bar>ipp_cantidad ex_item_router * coef (Decimal 1999 (- 2))\<bar> < 10 ^ 28 \<and>
   Etiny 28 \<le> expo (Decimal 1999 (- 2)) \<and> expo (Decimal 1999 (- 2)) \<le> Etop 28 \<and>
   ItemProductoPedido_subtotal ex_item_router = Inr (Decimal 5997 (- 2)) \<and>
   isp_precio_unitario ex_item_instalacion = Some (Decimal 5000 (- 2)) \<and>
   \<bar>isp_cantidad ex_item_instalacion * coef (Decimal 5000 (- 2))\<bar> < 10 ^ 28 \<and>
   ItemServicioPedido_subtotal ex_item_instalacion = Inr (Decimal 10000 (- 2)) \<and>
   (\<exists>d. ItemProductoPedido_subtotal ex_item_router = Inr d \<and>
      dec_val d = of_int (ipp_cantidad ex_item_router) * dec_val (Decimal 1999 (- 2)) \<and>
      expo d = expo (Decimal 1999 (- 2))) \<and>
   (\<exists>d. ItemServicioPedido_subtotal ex_item_instalacion = Inr d \<and>
      dec_val d = of_int (isp_cantidad ex_item_instalacion) * dec_val (Decimal 5000 (- 2)) \<and>
      expo d = expo (Decimal 5000 (- 2)))"
proof -
  have h1: "ipp_precio_unitario ex_item_router = Some (Decimal 1999 (- 2))"
    and h2: "\<bar>ipp_cantidad ex_item_router * coef (Decimal 1999 (- 2))\<bar> < 10 ^ 28"
    and h3: "Etiny 28 \<le> expo (Decimal 1999 (- 2))" "expo (Decimal 1999 (- 2)) \<le> Etop 28"
    and h4: "isp_precio_unitario ex_item_instalacion = Some (Decimal 5000 (- 2))"
    and h5: "\<bar>isp_cantidad ex_item_instalacion * coef (Decimal 5000 (- 2))\<bar> < 10 ^ 28"
    and h6: "Etiny 28 \<le> expo (Decimal 5000 (- 2))" "expo (Decimal 5000 (- 2)) \<le> Etop 28"
    by (simp_all add: ex_item_router_def ex_item_instalacion_def Etiny_28 Etop_28)
  have e1: "ItemProductoPedido_subtotal ex_item_router = Inr (Decimal 5997 (- 2))"
    and e2: "ItemServicioPedido_subtotal ex_item_instalacion = Inr (Decimal 10000 (- 2))"
    by code_simp+
  note t = subtotal_exact [of ex_item_router "Decimal 1999 (- 2)"
      ex_item_instalacion "Decimal 5000 (- 2)"]
  from t h1 h2 h3 h4 h5 h6 e1 e2 show ?thesis by blast
qed

text \<open>
  C2 as stated, for every line, fails where the product has more than 28 digits: a line
  of 9223372036854775807 units at 99999999.99 has the subtotal
  922337203593243860331452241.9, the product rounded to 28 digits, which is not the
  product.
\<close>

theorem subtotal_rounds_counterexample:
  "ItemProductoPedido_subtotal
     \<lparr>ipp_id = Some 1, ipp_pedido = 1, ipp_producto = 1, ipp_cantidad = 9223372036854775807,
      ipp_precio_unitario = Some (Decimal 9999999999 (- 2))\<rparr>
     = Inr (Decimal 9223372035932438603314522419 (- 1)) \<and>
   dec_val (Decimal 9223372035932438603314522419 (- 1))
     \<noteq> 9223372036854775807 * dec_val (Decimal 9999999999 (- 2)) \<and>
   ItemServicioPedido_subtotal
     \<lparr>isp_id = Some 1, isp_pedido = 1, isp_servicio = 1, isp_cantidad = 9223372036854775807,
      isp_precio_unitario = Some (Decimal 9999999999 (- 2))\<rparr>
     = Inr (Decimal 9223372035932438603314522419 (- 1))"
  by code_simp

section \<open>The total is the sum of the subtotals, within the precision\<close>

lemma DecimalField_from_db_id:
  assumes "precio_en_columna (Some p)"
  shows "DecimalField_from_db p = Inr p"
proof (cases "coef p = 0")
  case True
  with assms show ?thesis
    by (cases p) (simp add: DecimalField_from_db_def precio_en_columna_def)
next
  case False
  from assms have e: "expo p = - 2" and c: "\<bar>coef p\<bar> < 10 ^ 10"
    by (simp_all add: precio_en_columna_def)
  from c have "ndigits \<bar>coef p\<bar> \<le> 10" by (intro ndigits_le) simp_all
  then have len: "int (ndigits \<bar>coef p\<bar>) \<le> 10" by simp
  have s: "sgn (coef p) * \<bar>coef p\<bar> = coef p" by (simp add: mult_sgn_abs)
  from len have a: "\<not> (int (ndigits \<bar>coef p\<bar>) + - 2 - 1 > Emax \<or> int (ndigits \<bar>coef p\<bar>) + - 2 + 2 > 10)"
    by (simp add: Emax_def)
  have "DecimalField_from_db p = Inr (Decimal (sgn (coef p) * \<bar>coef p\<bar>) (- 2))"
    unfolding DecimalField_from_db_def Let_def e using False len a by simp
  with s e show ?thesis by (cases p) simp
qed

lemma fetch_all_productos_id:
  assumes "\<forall>i \<in> set rows. precio_en_columna (ipp_precio_unitario i)"
  shows "fetch_all ItemProductoPedido_from_db rows = Inr rows"
  using assms
proof (induction rows)
  case Nil
  then show ?case by simp
next
  case (Cons r rows)
  from Cons.prems obtain p where p: "ipp_precio_unitario r = Some p"
    by (cases "ipp_precio_unitario r") (auto simp: precio_en_columna_def)
  with Cons.prems have "DecimalField_from_db p = Inr p"
    by (intro DecimalField_from_db_id) simp
  with p have "ItemProductoPedido_from_db r = Inr r"
    by (simp add: ItemProductoPedido_from_db_def)
  with Cons show ?case by simp
qed

lemma fetch_all_servicios_id:
  assumes "\<forall>i \<in> set rows. precio_en_columna (isp_precio_unitario i)"
  shows "fetch_all ItemServicioPedido_from_db rows = Inr rows"
  using assms
proof (induction rows)
  case Nil
  then show ?case by simp
next
  case (Cons r rows)
  from Cons.prems obtain p where p: "isp_precio_unitario r = Some p"
    by (cases "isp_precio_unitario r") (auto simp: precio_en_columna_def)
  with Cons.prems have "DecimalField_from_db p = Inr p"
    by (intro DecimalField_from_db_id) simp
  with p have "ItemServicioPedido_from_db r = Inr r"
    by (simp add: ItemServicioPedido_from_db_def)
  with Cons show ?case by simp
qed

lemma dec_add_cents:
  assumes "\<bar>a + b\<bar> < 10 ^ 28"
  shows "dec_add (Decimal a (- 2)) (Decimal b (- 2)) = Inr (Decimal (a + b) (- 2))"
  unfolding dec_add_def using assms
  by (simp add: dec_fix_id Etiny_28 Etop_28)

lemma dec_add_zero_left:
  assumes "\<bar>b\<bar> < 10 ^ 28"
  shows "dec_add (Decimal 0 0) (Decimal b (- 2)) = Inr (Decimal b (- 2))"
  unfolding dec_add_def using assms
  by (simp add: dec_fix_id Etiny_28 Etop_28)

lemma dec_add_zero_right:
  assumes "\<bar>a\<bar> < 10 ^ 28"
  shows "dec_add (Decimal a (- 2)) (Decimal 0 0) = Inr (Decimal a (- 2))"
  unfolding dec_add_def using assms
  by (simp add: dec_fix_id Etiny_28 Etop_28)

lemma py_add_cents:
  assumes "en_centimos s j" and "en_centimos t k" and "\<bar>j + k\<bar> < 10 ^ 28"
  shows "\<exists>u. py_add s t = Inr u \<and> en_centimos u (j + k)"
  using assms
  by (auto simp: en_centimos_def dec_add_cents dec_add_zero_left dec_add_zero_right)

lemma py_val_cents:
  assumes "en_centimos t k"
  shows "py_val t = of_int k / 100"
  using assms by (auto simp: en_centimos_def dec_val_cents)

lemma py_sum_cents:
  assumes "\<forall>x \<in> set ds. expo x = - 2" and "en_centimos acc c"
    and "\<bar>c\<bar> + (\<Sum>x\<leftarrow>ds. \<bar>coef x\<bar>) < 10 ^ 28"
  shows "\<exists>t. py_sum acc (map Inr ds) = Inr t \<and> en_centimos t (c + (\<Sum>x\<leftarrow>ds. coef x))
           \<and> (ds = [] \<longrightarrow> t = acc)"
  using assms
proof (induction ds arbitrary: acc c)
  case Nil
  then show ?case by simp
next
  case (Cons x ds)
  from Cons.prems(1) have x: "x = Decimal (coef x) (- 2)" by (cases x) simp
  then have cx: "en_centimos (PyDec x) (coef x)" by (simp add: en_centimos_def)
  have nn: "0 \<le> (\<Sum>x\<leftarrow>ds. \<bar>coef x\<bar>)" by (rule sum_list_nonneg) auto
  from Cons.prems(3) nn have b: "\<bar>c + coef x\<bar> < 10 ^ 28" by simp
  from py_add_cents [OF Cons.prems(2) cx b]
  obtain u where u: "py_add acc (PyDec x) = Inr u" "en_centimos u (c + coef x)" by blast
  from Cons.prems(3) have "\<bar>c + coef x\<bar> + (\<Sum>x\<leftarrow>ds. \<bar>coef x\<bar>) < 10 ^ 28" by simp
  with Cons.IH [of u "c + coef x"] Cons.prems(1) u(2)
  obtain t where "py_sum u (map Inr ds) = Inr t"
      "en_centimos t (c + coef x + (\<Sum>x\<leftarrow>ds. coef x))" by auto
  with u(1) show ?case by (simp add: add.assoc)
qed

lemma elem_le_sum_list:
  fixes f :: "'a \<Rightarrow> int"
  assumes "x \<in> set xs" and "\<forall>y \<in> set xs. 0 \<le> f y"
  shows "f x \<le> sum_list (map f xs)"
  using assms
proof (induction xs)
  case Nil
  then show ?case by simp
next
  case (Cons y ys)
  have "0 \<le> sum_list (map f ys)" using Cons.prems(2) by (intro sum_list_nonneg) auto
  with Cons show ?case by auto
qed

lemma sum_dec_val_cents:
  assumes "\<forall>x \<in> set ds. expo x = - 2"
  shows "sum_list (map dec_val ds) = of_int (\<Sum>x\<leftarrow>ds. coef x) / 100"
  using assms
proof (induction ds)
  case Nil
  then show ?case by simp
next
  case (Cons x ds)
  from Cons.prems have "x = Decimal (coef x) (- 2)" by (cases x) simp
  then have "dec_val x = of_int (coef x) / 100" by (metis dec_val_cents)
  with Cons show ?case by (simp add: add_divide_distrib)
qed

lemma total_productos:
  assumes "\<forall>i \<in> set rows. precio_en_columna (ipp_precio_unitario i)"
    and "S = sum_list (map (\<lambda>i. centimos (ipp_cantidad i) (ipp_precio_unitario i)) rows)"
    and "S < 10 ^ 28"
  shows "\<exists>tp ps k. map ItemProductoPedido_subtotal rows = map Inr ps \<and>
           py_sum (PyInt 0) (map Inr ps) = Inr tp \<and> en_centimos tp k \<and> \<bar>k\<bar> \<le> S \<and>
           of_int k / 100 = sum_list (map dec_val ps) \<and> (rows = [] \<longrightarrow> tp = PyInt 0)"
proof -
  define ps where
    "ps = map (\<lambda>i. Decimal (ipp_cantidad i * coef (the (ipp_precio_unitario i))) (- 2)) rows"
  have sub: "ItemProductoPedido_subtotal i
      = Inr (Decimal (ipp_cantidad i * coef (the (ipp_precio_unitario i))) (- 2))"
    if i: "i \<in> set rows" for i
  proof -
    from assms(1) i obtain p where p: "ipp_precio_unitario i = Some p" "expo p = - 2"
      by (cases "ipp_precio_unitario i") (auto simp: precio_en_columna_def)
    have "centimos (ipp_cantidad i) (ipp_precio_unitario i) \<le> S"
      unfolding assms(2) using i
      by (intro elem_le_sum_list [where f = "\<lambda>i. centimos (ipp_cantidad i) (ipp_precio_unitario i)"])
         (auto simp: centimos_def split: option.splits)
    with assms(3) p have "\<bar>ipp_cantidad i * coef p\<bar> < 10 ^ 28" by (simp add: centimos_def)
    with p have "int_mul_dec (ipp_cantidad i) p = Inr (Decimal (ipp_cantidad i * coef p) (- 2))"
      using int_mul_dec_exact [of "ipp_cantidad i" p] by (simp add: Etiny_28 Etop_28)
    with p show ?thesis by (simp add: ItemProductoPedido_subtotal_def)
  qed
  then have m: "map ItemProductoPedido_subtotal rows = map Inr ps"
    by (simp add: ps_def)
  have e2: "\<forall>x \<in> set ps. expo x = - 2" by (auto simp: ps_def)
  have abs_sum: "(\<Sum>x\<leftarrow>ps. \<bar>coef x\<bar>) = S"
  proof -
    have "\<bar>ipp_cantidad i * coef (the (ipp_precio_unitario i))\<bar>
        = centimos (ipp_cantidad i) (ipp_precio_unitario i)" if "i \<in> set rows" for i
      using assms(1) that
      by (cases "ipp_precio_unitario i") (auto simp: centimos_def precio_en_columna_def)
    then show ?thesis
      unfolding assms(2) ps_def by (simp add: comp_def cong: map_cong)
  qed
  have z: "en_centimos (PyInt 0) 0" by (simp add: en_centimos_def)
  from assms(3) abs_sum have "\<bar>0::int\<bar> + (\<Sum>x\<leftarrow>ps. \<bar>coef x\<bar>) < 10 ^ 28" by simp
  from py_sum_cents [OF e2 z this]
  obtain tp where tp: "py_sum (PyInt 0) (map Inr ps) = Inr tp"
      "en_centimos tp (\<Sum>x\<leftarrow>ps. coef x)" "ps = [] \<longrightarrow> tp = PyInt 0"
    by auto
  have "\<bar>\<Sum>x\<leftarrow>ps. coef x\<bar> \<le> (\<Sum>x\<leftarrow>ps. \<bar>coef x\<bar>)"
    using sum_list_abs [of "map coef ps"] by (simp add: comp_def)
  with abs_sum have k: "\<bar>\<Sum>x\<leftarrow>ps. coef x\<bar> \<le> S" by simp
  have v: "of_int (\<Sum>x\<leftarrow>ps. coef x) / 100 = sum_list (map dec_val ps)"
    using sum_dec_val_cents [OF e2] by simp
  have "rows = [] \<longrightarrow> tp = PyInt 0" using tp(3) by (simp add: ps_def)
  with m tp(1,2) k v show ?thesis by blast
qed

lemma total_servicios:
  assumes "\<forall>i \<in> set rows. precio_en_columna (isp_precio_unitario i)"
    and "S = sum_list (map (\<lambda>i. centimos (isp_cantidad i) (isp_precio_unitario i)) rows)"
    and "S < 10 ^ 28"
  shows "\<exists>tp ps k. map ItemServicioPedido_subtotal rows = map Inr ps \<and>
           py_sum (PyInt 0) (map Inr ps) = Inr tp \<and> en_centimos tp k \<and> \<bar>k\<bar> \<le> S \<and>
           of_int k / 100 = sum_list (map dec_val ps) \<and> (rows = [] \<longrightarrow> tp = PyInt 0)"
proof -
  define ps where
    "ps = map (\<lambda>i. Decimal (isp_cantidad i * coef (the (isp_precio_unitario i))) (- 2)) rows"
  have sub: "ItemServicioPedido_subtotal i
      = Inr (Decimal (isp_cantidad i * coef (the (isp_precio_unitario i))) (- 2))"
    if i: "i \<in> set rows" for i
  proof -
    from assms(1) i obtain p where p: "isp_precio_unitario i = Some p" "expo p = - 2"
      by (cases "isp_precio_unitario i") (auto simp: precio_en_columna_def)
    have "centimos (isp_cantidad i) (isp_precio_unitario i) \<le> S"
      unfolding assms(2) using i
      by (intro elem_le_sum_list [where f = "\<lambda>i. centimos (isp_cantidad i) (isp_precio_unitario i)"])
         (auto simp: centimos_def split: option.splits)
    with assms(3) p have "\<bar>isp_cantidad i * coef p\<bar> < 10 ^ 28" by (simp add: centimos_def)
    with p have "int_mul_dec (isp_cantidad i) p = Inr (Decimal (isp_cantidad i * coef p) (- 2))"
      using int_mul_dec_exact [of "isp_cantidad i" p] by (simp add: Etiny_28 Etop_28)
    with p show ?thesis by (simp add: ItemServicioPedido_subtotal_def)
  qed
  then have m: "map ItemServicioPedido_subtotal rows = map Inr ps"
    by (simp add: ps_def)
  have e2: "\<forall>x \<in> set ps. expo x = - 2" by (auto simp: ps_def)
  have abs_sum: "(\<Sum>x\<leftarrow>ps. \<bar>coef x\<bar>) = S"
  proof -
    have "\<bar>isp_cantidad i * coef (the (isp_precio_unitario i))\<bar>
        = centimos (isp_cantidad i) (isp_precio_unitario i)" if "i \<in> set rows" for i
      using assms(1) that
      by (cases "isp_precio_unitario i") (auto simp: centimos_def precio_en_columna_def)
    then show ?thesis
      unfolding assms(2) ps_def by (simp add: comp_def cong: map_cong)
  qed
  have z: "en_centimos (PyInt 0) 0" by (simp add: en_centimos_def)
  from assms(3) abs_sum have "\<bar>0::int\<bar> + (\<Sum>x\<leftarrow>ps. \<bar>coef x\<bar>) < 10 ^ 28" by simp
  from py_sum_cents [OF e2 z this]
  obtain tp where tp: "py_sum (PyInt 0) (map Inr ps) = Inr tp"
      "en_centimos tp (\<Sum>x\<leftarrow>ps. coef x)" "ps = [] \<longrightarrow> tp = PyInt 0"
    by auto
  have "\<bar>\<Sum>x\<leftarrow>ps. coef x\<bar> \<le> (\<Sum>x\<leftarrow>ps. \<bar>coef x\<bar>)"
    using sum_list_abs [of "map coef ps"] by (simp add: comp_def)
  with abs_sum have k: "\<bar>\<Sum>x\<leftarrow>ps. coef x\<bar> \<le> S" by simp
  have v: "of_int (\<Sum>x\<leftarrow>ps. coef x) / 100 = sum_list (map dec_val ps)"
    using sum_dec_val_cents [OF e2] by simp
  have "rows = [] \<longrightarrow> tp = PyInt 0" using tp(3) by (simp add: ps_def)
  with m tp(1,2) k v show ?thesis by blast
qed

text \<open>A stored price of eleven digits cannot be read back: the total raises.\<close>

lemma total_pedido_invalid_operation:
  "Pedido_total_pedido ex_db_once_digitos ex_pedido = Inl InvalidOperation"
  by code_simp

text \<open>
  C1, as the code has it: when every line of the order has a stored unit price of two
  places and at most ten digits, and the sizes of the subtotals add up to less than
  10^28 hundredths, \<open>total_pedido\<close> returns, every subtotal is defined, and the total is
  the sum of the subtotals of the order's product lines plus the sum of the subtotals of
  its service lines; for an order with no line at all it is the int 0.
\<close>

theorem total_pedido_is_sum:
  assumes "lineas_en_columna d self" and "centimos_pedido d self < 10 ^ 28"
  shows "\<exists>t ps ss.
           Pedido_total_pedido d self = Inr t \<and>
           map ItemProductoPedido_subtotal (items_productos_all d self) = map Inr ps \<and>
           map ItemServicioPedido_subtotal (items_servicios_all d self) = map Inr ss \<and>
           py_val t = sum_list (map dec_val ps) + sum_list (map dec_val ss) \<and>
           (items_productos_all d self = [] \<and> items_servicios_all d self = [] \<longrightarrow> t = PyInt 0)"
proof -
  define Sp where
    "Sp = sum_list (map (\<lambda>i. centimos (ipp_cantidad i) (ipp_precio_unitario i))
                      (items_productos_all d self))"
  define Ss where
    "Ss = sum_list (map (\<lambda>i. centimos (isp_cantidad i) (isp_precio_unitario i))
                      (items_servicios_all d self))"
  have np: "0 \<le> Sp" unfolding Sp_def
    by (rule sum_list_nonneg) (auto simp: centimos_def split: option.splits)
  have ns: "0 \<le> Ss" unfolding Ss_def
    by (rule sum_list_nonneg) (auto simp: centimos_def split: option.splits)
  from assms(2) have tot: "Sp + Ss < 10 ^ 28"
    by (simp add: centimos_pedido_def Sp_def Ss_def)
  from assms(1) have cp: "\<forall>i \<in> set (items_productos_all d self). precio_en_columna (ipp_precio_unitario i)"
    and cs: "\<forall>i \<in> set (items_servicios_all d self). precio_en_columna (isp_precio_unitario i)"
    by (simp_all add: lineas_en_columna_def)
  from tot ns have "Sp < 10 ^ 28" by simp
  from total_productos [OF cp Sp_def this]
  obtain tp ps kp where p:
      "map ItemProductoPedido_subtotal (items_productos_all d self) = map Inr ps"
      "py_sum (PyInt 0) (map Inr ps) = Inr tp" "en_centimos tp kp" "\<bar>kp\<bar> \<le> Sp"
      "of_int kp / 100 = sum_list (map dec_val ps)"
      "items_productos_all d self = [] \<longrightarrow> tp = PyInt 0"
    by blast
  from tot np have "Ss < 10 ^ 28" by simp
  from total_servicios [OF cs Ss_def this]
  obtain ts ss ks where s:
      "map ItemServicioPedido_subtotal (items_servicios_all d self) = map Inr ss"
      "py_sum (PyInt 0) (map Inr ss) = Inr ts" "en_centimos ts ks" "\<bar>ks\<bar> \<le> Ss"
      "of_int ks / 100 = sum_list (map dec_val ss)"
      "items_servicios_all d self = [] \<longrightarrow> ts = PyInt 0"
    by blast
  from p(4) s(4) tot have "\<bar>kp + ks\<bar> < 10 ^ 28" by simp
  from py_add_cents [OF p(3) s(3) this]
  obtain t where t: "py_add tp ts = Inr t" "en_centimos t (kp + ks)" by blast
  have total: "Pedido_total_pedido d self = Inr t"
    by (simp add: Pedido_total_pedido_def fetch_all_productos_id [OF cp]
        fetch_all_servicios_id [OF cs] p(1,2) s(1,2) t(1))
  have val: "py_val t = sum_list (map dec_val ps) + sum_list (map dec_val ss)"
    using py_val_cents [OF t(2)] p(5) s(5) by (simp add: add_divide_distrib)
  have empty: "t = PyInt 0"
    if "items_productos_all d self = []" "items_servicios_all d self = []"
  proof -
    from that p(6) s(6) have "tp = PyInt 0" "ts = PyInt 0" by simp_all
    with t(1) show ?thesis by simp
  qed
  from total p(1) s(1) val empty show ?thesis by blast
qed

theorem total_pedido_is_sum_witness:
  "lineas_en_columna ex_db ex_pedido \<and> centimos_pedido ex_db ex_pedido < 10 ^ 28 \<and>
   Pedido_total_pedido ex_db ex_pedido = Inr (PyDec (Decimal 15997 (- 2))) \<and>
   lineas_en_columna ex_db ex_pedido_vacio \<and> centimos_pedido ex_db ex_pedido_vacio < 10 ^ 28 \<and>
   Pedido_total_pedido ex_db ex_pedido_vacio = Inr (PyInt 0) \<and>
   (\<exists>t ps ss.
      Pedido_total_pedido ex_db ex_pedido = Inr t \<and>
      map ItemProductoPedido_subtotal (items_productos_all ex_db ex_pedido) = map Inr ps \<and>
      map ItemServicioPedido_subtotal (items_servicios_all ex_db ex_pedido) = map Inr ss \<and>
      py_val t = sum_list (map dec_val ps) + sum_list (map dec_val ss) \<and>
      (items_productos_all ex_db ex_pedido = [] \<and> items_servicios_all ex_db ex_pedido = []
         \<longrightarrow> t = PyInt 0))"
proof -
  have h1: "lineas_en_columna ex_db ex_pedido" by code_simp
  have h2: "centimos_pedido ex_db ex_pedido < 10 ^ 28" by code_simp
  have h3: "lineas_en_columna ex_db ex_pedido_vacio" by code_simp
  have h4: "centimos_pedido ex_db ex_pedido_vacio < 10 ^ 28" by code_simp
  have e1: "Pedido_total_pedido ex_db ex_pedido = Inr (PyDec (Decimal 15997 (- 2)))"
    by code_simp
  have e2: "Pedido_total_pedido ex_db ex_pedido_vacio = Inr (PyInt 0)" by code_simp
  from h1 h2 h3 h4 e1 e2 total_pedido_is_sum [OF h1 h2] show ?thesis by blast
qed

text \<open>
  C1 as stated, for every order, fails where a sum has more than 28 digits: with two
  lines of 9223372036854775807 units at 99999999.99 each subtotal is
  922337203593243860331452241.9 and the total is 1844674407186487720662904484, the sum
  rounded to 28 digits, not the sum of the two subtotals.
\<close>

theorem total_pedido_rounds_counterexample:
  "map ItemProductoPedido_subtotal (items_productos_all ex_db_grande ex_pedido)
     = [Inr (Decimal 9223372035932438603314522419 (- 1)),
        Inr (Decimal 9223372035932438603314522419 (- 1))] \<and>
   items_servicios_all ex_db_grande ex_pedido = [] \<and>
   Pedido_total_pedido ex_db_grande ex_pedido
     = Inr (PyDec (Decimal 1844674407186487720662904484 0)) \<and>
   py_val (PyDec (Decimal 1844674407186487720662904484 0))
     \<noteq> dec_val (Decimal 9223372035932438603314522419 (- 1))
       + dec_val (Decimal 9223372035932438603314522419 (- 1))"
  by code_simp

section \<open>The expiry of a client's budget\<close>

text \<open>
  C4: \<open>presupuesto_vencido\<close> is true exactly when the expiry date is strictly before
  today, that is when today's year, month and day come later in calendar order; on the
  expiry date itself it is false.
\<close>

theorem presupuesto_vencido_iff:
  "Cliente_presupuesto_vencido today c = (cl_fecha_vencimiento_presupuesto c < today) \<and>
   Cliente_presupuesto_vencido (y, m, dd) (c\<lparr>cl_fecha_vencimiento_presupuesto := (y', m', dd')\<rparr>)
     = (y' < y \<or> (y' = y \<and> (m' < m \<or> (m' = m \<and> dd' < dd)))) \<and>
   Cliente_presupuesto_vencido (cl_fecha_vencimiento_presupuesto c) c = False"
  by (auto simp: Cliente_presupuesto_vencido_def less_prod_def)

section \<open>The price check of the forms\<close>

text \<open>
  C5: \<open>clean_precio\<close> at a price of zero. Both forms return the zero price and raise
  nothing, for \<^verbatim>\<open>Decimal('0.00')\<close> and for \<^verbatim>\<open>Decimal('0')\<close>, although the message
  they would raise says the price must be greater than zero; zero also passes the stored
  field's validator. A negative price is rejected.
\<close>

theorem clean_precio_accepts_zero:
  "ProductoHardwareForm_clean_precio (Some (Decimal 0 (- 2))) = Inr (Some (Decimal 0 (- 2))) \<and>
   ServicioInformaticoForm_clean_precio (Some (Decimal 0 (- 2))) = Inr (Some (Decimal 0 (- 2))) \<and>
   ProductoHardwareForm_clean_precio (Some (Decimal 0 0)) = Inr (Some (Decimal 0 0)) \<and>
   ServicioInformaticoForm_clean_precio (Some (Decimal 0 0)) = Inr (Some (Decimal 0 0)) \<and>
   MinValueValidator_0 (Decimal 0 (- 2)) \<and>
   ProductoHardwareForm_clean_precio (Some (Decimal (- 1) (- 2))) = Inl (ValidationError MSG_PRECIO) \<and>
   ServicioInformaticoForm_clean_precio (Some (Decimal (- 1) (- 2))) = Inl (ValidationError MSG_PRECIO)"
  by (simp add: ProductoHardwareForm_clean_precio_def ServicioInformaticoForm_clean_precio_def
      dec_truthy_def dec_le_zero_def MinValueValidator_0_def)

section \<open>The type shown for a product\<close>

text \<open>
  C10: for a product whose \<open>tipo\<close> is not \<open>otros\<close>, \<open>tipo_seleccion\<close> is
  \<open>get_tipo_display\<close>, whatever text \<open>tipo_personalizado\<close> holds, and it is the label
  of the choice when \<open>tipo\<close> is one of the choices; for \<open>otros\<close> with an empty
  \<open>tipo_personalizado\<close> it is the label \<open>Otros\<close>.
\<close>

theorem tipo_seleccion_label:
  "(ph_tipo p \<noteq> ''otros'' \<longrightarrow>
      tipo_seleccion p = get_tipo_display p \<and>
      tipo_seleccion (p\<lparr>ph_tipo_personalizado := x\<rparr>) = tipo_seleccion p) \<and>
   (ph_tipo p \<noteq> ''otros'' \<and> map_of TIPO_PRODUCTO_CHOICES (ph_tipo p) = Some label \<longrightarrow>
      tipo_seleccion p = label) \<and>
   (ph_tipo p = ''otros'' \<and> ph_tipo_personalizado p = [] \<longrightarrow> tipo_seleccion p = ''Otros'')"
  by (simp add: tipo_seleccion_def get_tipo_display_def TIPO_PRODUCTO_CHOICES_def)

theorem tipo_seleccion_label_witness:
  "ph_tipo ex_laptop \<noteq> ''otros'' \<and> ph_tipo_personalizado ex_laptop = ''ignored'' \<and>
   map_of TIPO_PRODUCTO_CHOICES (ph_tipo ex_laptop) = Some ''Laptop'' \<and>
   tipo_seleccion ex_laptop = ''Laptop'' \<and>
   tipo_seleccion (ex_laptop\<lparr>ph_tipo_personalizado := ''Ultrabook''\<rparr>) = tipo_seleccion ex_laptop \<and>
   ph_tipo (ex_router\<lparr>ph_tipo_personalizado := []\<rparr>) = ''otros'' \<and>
   tipo_seleccion (ex_router\<lparr>ph_tipo_personalizado := []\<rparr>) = ''Otros''"
  using tipo_seleccion_label [of ex_laptop "''Ultrabook''" "''Laptop''"]
    tipo_seleccion_label [of "ex_router\<lparr>ph_tipo_personalizado := []\<rparr>" "[]" "[]"]
  by (simp add: ex_laptop_def ex_router_def TIPO_PRODUCTO_CHOICES_def tipo_seleccion_def
      get_tipo_display_def)

section \<open>The custom type of a product\<close>

lemma map_of_append_msg:
  "map_of (map (\<lambda>(k, ms). if k = field then (k, ms @ [msg]) else (k, ms)) es) k' =
     (if k' = field then map_option (\<lambda>ms. ms @ [msg]) (map_of es k') else map_of es k')"
  by (induction es) auto

lemma form_errors_add_error:
  "map_of (form_errors (add_error field msg f)) k =
     (if k = field
      then Some ((case map_of (form_errors f) field of None \<Rightarrow> [] | Some ms \<Rightarrow> ms) @ [msg])
      else map_of (form_errors f) k)"
proof (cases "map_of (form_errors f) field")
  case None
  then show ?thesis
    by (auto simp: add_error_def map_add_def split: option.splits)
next
  case (Some ms)
  then show ?thesis
    by (simp add: add_error_def map_of_append_msg)
qed

lemma add_error_not_valid: "\<not> is_valid (add_error field msg f)"
  by (cases "map_of (form_errors f) field"; cases "form_errors f")
     (auto simp: is_valid_def add_error_def)

text \<open>
  C6: with \<open>tipo\<close> \<open>otros\<close> and an empty \<open>tipo_personalizado\<close>, the model's
  \<open>clean\<close> raises a validation error keyed by \<open>tipo_personalizado\<close>, and the form's
  \<open>clean\<close> leaves the form invalid, adding the message to the errors of
  \<open>tipo_personalizado\<close> and to no other field; the message is a non-empty text. With
  \<open>otros\<close> and a non-empty custom type, such as \<open>Router Mesh\<close>, both pass, the form
  is untouched and \<open>tipo_seleccion\<close> is the custom type.
\<close>

theorem otros_requires_tipo_personalizado:
  "(ph_tipo p = ''otros'' \<and> ph_tipo_personalizado p = [] \<longrightarrow>
      ProductoHardware_clean p =
        Inl (ValidationErrorDict [(''tipo_personalizado'', MSG_TIPO_PERSONALIZADO)])) \<and>
   (cd_tipo (cleaned_data f) = Some ''otros'' \<and>
    \<not> str_truthy (cd_tipo_personalizado (cleaned_data f)) \<longrightarrow>
      \<not> is_valid (ProductoHardwareForm_clean f) \<and>
      map_of (form_errors (ProductoHardwareForm_clean f)) ''tipo_personalizado'' =
        Some ((case map_of (form_errors f) ''tipo_personalizado'' of None \<Rightarrow> [] | Some ms \<Rightarrow> ms)
              @ [MSG_TIPO_PERSONALIZADO]) \<and>
      (k \<noteq> ''tipo_personalizado'' \<longrightarrow>
         map_of (form_errors (ProductoHardwareForm_clean f)) k = map_of (form_errors f) k)) \<and>
   (ph_tipo p = ''otros'' \<and> ph_tipo_personalizado p \<noteq> [] \<longrightarrow>
      ProductoHardware_clean p = Inr () \<and> tipo_seleccion p = ph_tipo_personalizado p) \<and>
   (cd_tipo (cleaned_data f) = Some ''otros'' \<and>
    str_truthy (cd_tipo_personalizado (cleaned_data f)) \<longrightarrow>
      ProductoHardwareForm_clean f = f) \<and>
   MSG_TIPO_PERSONALIZADO \<noteq> []"
  by (simp add: ProductoHardware_clean_def ProductoHardwareForm_clean_def Let_def
      tipo_seleccion_def add_error_not_valid form_errors_add_error MSG_TIPO_PERSONALIZADO_def)

theorem otros_requires_tipo_personalizado_witness:
  "ph_tipo (ex_router\<lparr>ph_tipo_personalizado := []\<rparr>) = ''otros'' \<and>
   ProductoHardware_clean (ex_router\<lparr>ph_tipo_personalizado := []\<rparr>) =
     Inl (ValidationErrorDict [(''tipo_personalizado'', MSG_TIPO_PERSONALIZADO)]) \<and>
   form_errors (ProductoHardwareForm_clean (ex_form ''otros'' [])) =
     [(''tipo_personalizado'', [MSG_TIPO_PERSONALIZADO])] \<and>
   \<not> is_valid (ProductoHardwareForm_clean (ex_form ''otros'' [])) \<and>
   map_of (form_errors (ProductoHardwareForm_clean (ex_form ''otros'' []))) ''precio'' = None \<and>
   ph_tipo ex_router = ''otros'' \<and> ph_tipo_personalizado ex_router = ''Router Mesh'' \<and>
   ProductoHardware_clean ex_router = Inr () \<and> tipo_seleccion ex_router = ''Router Mesh'' \<and>
   ProductoHardwareForm_clean (ex_form ''otros'' ''Router Mesh'') = ex_form ''otros'' ''Router Mesh'' \<and>
   is_valid (ProductoHardwareForm_clean (ex_form ''otros'' ''Router Mesh''))"
  using otros_requires_tipo_personalizado
      [of "ex_router\<lparr>ph_tipo_personalizado := []\<rparr>" "ex_form ''otros'' []" "''precio''"]
    otros_requires_tipo_personalizado
      [of ex_router "ex_form ''otros'' ''Router Mesh''" "''precio''"]
  by (simp add: ex_router_def ex_form_def str_truthy_def is_valid_def
      ProductoHardwareForm_clean_def add_error_def cd_delete_def)








section \<open>The unit price of a saved line\<close>

lemma Model_save_item_producto_ok:
  assumes "ipp_precio_unitario it = Some v"
    and "find_pedido d (ipp_pedido it) \<noteq> None"
    and "find_producto d (ipp_producto it) \<noteq> None"
    and "unique_together_item_producto d it"
  shows "\<exists>it' d'. Model_save_item_producto d it = Inr (it', d') \<and>
           ipp_precio_unitario it' = Some v \<and> it' \<in> set (db_items_productos d')"
proof (cases "ipp_id it")
  case None
  with assms show ?thesis
    by (simp add: Model_save_item_producto_def Let_def)
next
  case (Some k)
  show ?thesis
  proof (cases "Some k \<in> set (map ipp_id (db_items_productos d))")
    case True
    then obtain r where "r \<in> set (db_items_productos d)" "ipp_id r = Some k" by auto
    then have "it \<in> (\<lambda>r. if ipp_id r = Some k then it else r) ` set (db_items_productos d)"
      by force
    with assms Some True show ?thesis
      by (simp add: Model_save_item_producto_def)
  next
    case False
    with assms Some show ?thesis
      by (simp add: Model_save_item_producto_def)
  qed
qed

lemma Model_save_item_servicio_ok:
  assumes "isp_precio_unitario it = Some v"
    and "find_pedido d (isp_pedido it) \<noteq> None"
    and "find_servicio d (isp_servicio it) \<noteq> None"
    and "unique_together_item_servicio d it"
  shows "\<exists>it' d'. Model_save_item_servicio d it = Inr (it', d') \<and>
           isp_precio_unitario it' = Some v \<and> it' \<in> set (db_items_servicios d')"
proof (cases "isp_id it")
  case None
  with assms show ?thesis
    by (simp add: Model_save_item_servicio_def Let_def)
next
  case (Some k)
  show ?thesis
  proof (cases "Some k \<in> set (map isp_id (db_items_servicios d))")
    case True
    then obtain r where "r \<in> set (db_items_servicios d)" "isp_id r = Some k" by auto
    then have "it \<in> (\<lambda>r. if isp_id r = Some k then it else r) ` set (db_items_servicios d)"
      by force
    with assms Some True show ?thesis
      by (simp add: Model_save_item_servicio_def)
  next
    case False
    with assms Some show ?thesis
      by (simp add: Model_save_item_servicio_def)
  qed
qed

lemma ItemProductoPedido_save_falsy:
  assumes "precio_falsy (ipp_precio_unitario ip)"
    and "find_producto d (ipp_producto ip) = Some p"
    and "find_pedido d (ipp_pedido ip) \<noteq> None"
    and "unique_together_item_producto d ip"
  shows "\<exists>ip' d'. ItemProductoPedido_save d ip = Inr (ip', d') \<and>
           ipp_precio_unitario ip' = Some (ph_precio p) \<and> ip' \<in> set (db_items_productos d')"
proof -
  let ?ip = "ip\<lparr>ipp_precio_unitario := Some (ph_precio p)\<rparr>"
  have "unique_together_item_producto d ?ip"
    using assms(4) by (simp add: unique_together_item_producto_def)
  with assms(2,3)
  have "\<exists>it' d'. Model_save_item_producto d ?ip = Inr (it', d') \<and>
           ipp_precio_unitario it' = Some (ph_precio p) \<and> it' \<in> set (db_items_productos d')"
    by (intro Model_save_item_producto_ok) simp_all
  with assms(1,2) show ?thesis
    by (simp add: ItemProductoPedido_save_def)
qed

lemma ItemServicioPedido_save_falsy:
  assumes "precio_falsy (isp_precio_unitario it)"
    and "find_servicio d (isp_servicio it) = Some s"
    and "find_pedido d (isp_pedido it) \<noteq> None"
    and "unique_together_item_servicio d it"
  shows "\<exists>it' d'. ItemServicioPedido_save d it = Inr (it', d') \<and>
           isp_precio_unitario it' = Some (si_precio s) \<and> it' \<in> set (db_items_servicios d')"
proof -
  let ?it = "it\<lparr>isp_precio_unitario := Some (si_precio s)\<rparr>"
  have "unique_together_item_servicio d ?it"
    using assms(4) by (simp add: unique_together_item_servicio_def)
  with assms(2,3)
  have "\<exists>it' d'. Model_save_item_servicio d ?it = Inr (it', d') \<and>
           isp_precio_unitario it' = Some (si_precio s) \<and> it' \<in> set (db_items_servicios d')"
    by (intro Model_save_item_servicio_ok) simp_all
  with assms(1,2) show ?thesis
    by (simp add: ItemServicioPedido_save_def)
qed

lemma if_Inl_Inr_cases:
  "(if A then Inl e else if B then Inr (f x) else Inr (f y)) = Inl e \<or>
   (\<exists>z. (if A then Inl e else if B then Inr (f x) else Inr (f y)) = Inr (f z))"
  by auto

lemma Model_save_producto_cases:
  "Model_save_producto d p = Inl IntegrityError \<or>
   (\<exists>ps. Model_save_producto d p = Inr (d\<lparr>db_productos := ps\<rparr>))"
  unfolding Model_save_producto_def
  by (rule if_Inl_Inr_cases [where f = "\<lambda>ps. d\<lparr>db_productos := ps\<rparr>"])

lemma Model_save_servicio_cases:
  "Model_save_servicio d s = Inl IntegrityError \<or>
   (\<exists>ss. Model_save_servicio d s = Inr (d\<lparr>db_servicios := ss\<rparr>))"
  unfolding Model_save_servicio_def
  by (rule if_Inl_Inr_cases [where f = "\<lambda>ss. d\<lparr>db_servicios := ss\<rparr>"])

lemma Model_save_producto_items:
  assumes "Model_save_producto d p = Inr d'"
  shows "db_items_productos d' = db_items_productos d \<and> db_items_servicios d' = db_items_servicios d"
proof -
  from Model_save_producto_cases [of d p] assms
  obtain ps where "Inr d' = (Inr (d\<lparr>db_productos := ps\<rparr>) :: py_error + db)"
    by (elim disjE exE) (simp_all only: sum.distinct, metis)
  then have "d' = d\<lparr>db_productos := ps\<rparr>" by (simp only: sum.inject)
  then show ?thesis by simp
qed

lemma Model_save_servicio_items:
  assumes "Model_save_servicio d s = Inr d'"
  shows "db_items_productos d' = db_items_productos d \<and> db_items_servicios d' = db_items_servicios d"
proof -
  from Model_save_servicio_cases [of d s] assms
  obtain ss where "Inr d' = (Inr (d\<lparr>db_servicios := ss\<rparr>) :: py_error + db)"
    by (elim disjE exE) (simp_all only: sum.distinct, metis)
  then have "d' = d\<lparr>db_servicios := ss\<rparr>" by (simp only: sum.inject)
  then show ?thesis by simp
qed

text \<open>
  C3: a product line or service line without a unit price, whose product (service) and
  order are in the store and which repeats no other line of the order, is saved with
  the price the product (service) has in the store at that moment, and that is the row
  stored. Saving a product or a service afterwards, with a new price or any other
  change, leaves every stored product line and service line as it was.
\<close>

theorem save_copies_price_snapshot:
  "(ipp_precio_unitario ip = None \<and> find_producto d (ipp_producto ip) = Some p \<and>
    find_pedido d (ipp_pedido ip) \<noteq> None \<and> unique_together_item_producto d ip \<longrightarrow>
      (\<exists>ip' d'. ItemProductoPedido_save d ip = Inr (ip', d') \<and>
         ipp_precio_unitario ip' = Some (ph_precio p) \<and> ip' \<in> set (db_items_productos d'))) \<and>
   (isp_precio_unitario it = None \<and> find_servicio d (isp_servicio it) = Some s \<and>
    find_pedido d (isp_pedido it) \<noteq> None \<and> unique_together_item_servicio d it \<longrightarrow>
      (\<exists>it' d'. ItemServicioPedido_save d it = Inr (it', d') \<and>
         isp_precio_unitario it' = Some (si_precio s) \<and> it' \<in> set (db_items_servicios d'))) \<and>
   (Model_save_producto d1 p1 = Inr d2 \<longrightarrow>
      db_items_productos d2 = db_items_productos d1 \<and>
      db_items_servicios d2 = db_items_servicios d1) \<and>
   (Model_save_servicio d1 s1 = Inr d3 \<longrightarrow>
      db_items_productos d3 = db_items_productos d1 \<and>
      db_items_servicios d3 = db_items_servicios d1)"
proof (intro conjI impI)
  assume "ipp_precio_unitario ip = None \<and> find_producto d (ipp_producto ip) = Some p \<and>
    find_pedido d (ipp_pedido ip) \<noteq> None \<and> unique_together_item_producto d ip"
  then show "\<exists>ip' d'. ItemProductoPedido_save d ip = Inr (ip', d') \<and>
         ipp_precio_unitario ip' = Some (ph_precio p) \<and> ip' \<in> set (db_items_productos d')"
    by (intro ItemProductoPedido_save_falsy) (simp_all add: precio_falsy_def)
next
  assume "isp_precio_unitario it = None \<and> find_servicio d (isp_servicio it) = Some s \<and>
    find_pedido d (isp_pedido it) \<noteq> None \<and> unique_together_item_servicio d it"
  then show "\<exists>it' d'. ItemServicioPedido_save d it = Inr (it', d') \<and>
         isp_precio_unitario it' = Some (si_precio s) \<and> it' \<in> set (db_items_servicios d')"
    by (intro ItemServicioPedido_save_falsy) (simp_all add: precio_falsy_def)
qed (simp_all add: Model_save_producto_items Model_save_servicio_items)

theorem save_copies_price_snapshot_witness:
  "ipp_precio_unitario ex_item_nuevo = None \<and>
   find_producto ex_db (ipp_producto ex_item_nuevo) = Some ex_router \<and>
   find_pedido ex_db (ipp_pedido ex_item_nuevo) \<noteq> None \<and>
   unique_together_item_producto ex_db ex_item_nuevo \<and>
   ItemProductoPedido_save ex_db ex_item_nuevo =
     Inr (ex_item_nuevo\<lparr>ipp_id := Some 2, ipp_precio_unitario := Some (Decimal 1999 (- 2))\<rparr>,
          ex_db\<lparr>db_items_productos :=
                  [ex_item_router,
                   ex_item_nuevo\<lparr>ipp_id := Some 2,
                                 ipp_precio_unitario := Some (Decimal 1999 (- 2))\<rparr>]\<rparr>) \<and>
   isp_precio_unitario ex_item_servicio_nuevo = None \<and>
   find_servicio ex_db (isp_servicio ex_item_servicio_nuevo) = Some ex_instalacion \<and>
   find_pedido ex_db (isp_pedido ex_item_servicio_nuevo) \<noteq> None \<and>
   unique_together_item_servicio ex_db ex_item_servicio_nuevo \<and>
   (\<exists>it' d'. ItemServicioPedido_save ex_db ex_item_servicio_nuevo = Inr (it', d') \<and>
      isp_precio_unitario it' = Some (Decimal 5000 (- 2)) \<and> it' \<in> set (db_items_servicios d')) \<and>
   Model_save_producto ex_db (ex_router\<lparr>ph_precio := Decimal 2499 (- 2)\<rparr>) =
     Inr (ex_db\<lparr>db_productos := [ex_router\<lparr>ph_precio := Decimal 2499 (- 2)\<rparr>, ex_laptop]\<rparr>) \<and>
   db_items_productos (ex_db\<lparr>db_productos := [ex_router\<lparr>ph_precio := Decimal 2499 (- 2)\<rparr>, ex_laptop]\<rparr>)
     = [ex_item_router] \<and>
   Model_save_servicio ex_db (ex_instalacion\<lparr>si_precio := Decimal 6000 (- 2)\<rparr>) =
     Inr (ex_db\<lparr>db_servicios := [ex_instalacion\<lparr>si_precio := Decimal 6000 (- 2)\<rparr>]\<rparr>) \<and>
   db_items_servicios (ex_db\<lparr>db_servicios := [ex_instalacion\<lparr>si_precio := Decimal 6000 (- 2)\<rparr>]\<rparr>)
     = [ex_item_instalacion]"
proof -
  have h1: "ipp_precio_unitario ex_item_nuevo = None \<and>
      find_producto ex_db (ipp_producto ex_item_nuevo) = Some ex_router \<and>
      find_pedido ex_db (ipp_pedido ex_item_nuevo) \<noteq> None \<and>
      unique_together_item_producto ex_db ex_item_nuevo"
    by (simp add: ex_item_nuevo_def find_producto_def find_pedido_def ex_db_def ex_router_def
        ex_laptop_def ex_pedido_def ex_pedido_vacio_def unique_together_item_producto_def
        ex_item_router_def)
  have h2: "isp_precio_unitario ex_item_servicio_nuevo = None \<and>
      find_servicio ex_db (isp_servicio ex_item_servicio_nuevo) = Some ex_instalacion \<and>
      find_pedido ex_db (isp_pedido ex_item_servicio_nuevo) \<noteq> None \<and>
      unique_together_item_servicio ex_db ex_item_servicio_nuevo"
    by (simp add: ex_item_servicio_nuevo_def find_servicio_def find_pedido_def ex_db_def
        ex_instalacion_def ex_pedido_def ex_pedido_vacio_def unique_together_item_servicio_def
        ex_item_instalacion_def)
  have e1: "ItemProductoPedido_save ex_db ex_item_nuevo =
     Inr (ex_item_nuevo\<lparr>ipp_id := Some 2, ipp_precio_unitario := Some (Decimal 1999 (- 2))\<rparr>,
          ex_db\<lparr>db_items_productos :=
                  [ex_item_router,
                   ex_item_nuevo\<lparr>ipp_id := Some 2,
                                 ipp_precio_unitario := Some (Decimal 1999 (- 2))\<rparr>]\<rparr>)"
    by (simp add: ItemProductoPedido_save_def Model_save_item_producto_def precio_falsy_def
        ex_item_nuevo_def find_producto_def find_pedido_def ex_db_def ex_router_def
        ex_laptop_def ex_pedido_def ex_pedido_vacio_def unique_together_item_producto_def
        ex_item_router_def next_id_def Let_def)
  have e2: "Model_save_producto ex_db (ex_router\<lparr>ph_precio := Decimal 2499 (- 2)\<rparr>) =
     Inr (ex_db\<lparr>db_productos := [ex_router\<lparr>ph_precio := Decimal 2499 (- 2)\<rparr>, ex_laptop]\<rparr>)"
    by (simp add: Model_save_producto_def ex_db_def ex_router_def ex_laptop_def)
  have e3: "Model_save_servicio ex_db (ex_instalacion\<lparr>si_precio := Decimal 6000 (- 2)\<rparr>) =
     Inr (ex_db\<lparr>db_servicios := [ex_instalacion\<lparr>si_precio := Decimal 6000 (- 2)\<rparr>]\<rparr>)"
    by (simp add: Model_save_servicio_def ex_db_def ex_instalacion_def)
  note t = save_copies_price_snapshot [of ex_item_nuevo ex_db ex_router ex_item_servicio_nuevo
      ex_instalacion ex_db "ex_router\<lparr>ph_precio := Decimal 2499 (- 2)\<rparr>"
      "ex_db\<lparr>db_productos := [ex_router\<lparr>ph_precio := Decimal 2499 (- 2)\<rparr>, ex_laptop]\<rparr>"
      "ex_instalacion\<lparr>si_precio := Decimal 6000 (- 2)\<rparr>"
      "ex_db\<lparr>db_servicios := [ex_instalacion\<lparr>si_precio := Decimal 6000 (- 2)\<rparr>]\<rparr>"]
  have p: "si_precio ex_instalacion = Decimal 5000 (- 2)"
    by (simp add: ex_instalacion_def)
  have i1: "db_items_productos ex_db = [ex_item_router]"
    and i2: "db_items_servicios ex_db = [ex_item_instalacion]"
    by (simp_all add: ex_db_def)
  from t h1 h2 e1 e2 e3 p i1 i2 show ?thesis by metis
qed



section \<open>Searching the product list\<close>

lemma key_filter_stage:
  assumes "f = [] \<or> (\<exists>k. to_int f = Some k \<and> P k p)"
    and "p \<in> set qs" and "distinct qs"
  shows "\<exists>qs'. (if f \<noteq> []
               then (case to_int f of None \<Rightarrow> Inl ValueError
                     | Some k \<Rightarrow> Inr (filter (P k) qs))
               else Inr qs) = Inr qs' \<and> p \<in> set qs' \<and> distinct qs'"
  using assms by (cases "f = []") auto

lemma join_caracteristicas_mem:
  assumes "p \<in> set ps" and "c \<in> set (db_caracteristicas d)"
    and "cp_producto_hardware c = ph_id p"
  shows "(p, Some c) \<in> set (join_caracteristicas d ps)"
proof -
  from assms(2,3) have m: "c \<in> set (caracteristicas_of d p)"
    by (simp add: caracteristicas_of_def)
  then have "(p, Some c) \<in> set (case caracteristicas_of d p of
                 [] \<Rightarrow> [(p, None)] | cs \<Rightarrow> map (\<lambda>c. (p, Some c)) cs)"
    by (cases "caracteristicas_of d p") auto
  with assms(1) show ?thesis
    unfolding join_caracteristicas_def by auto
qed

lemma count_list_distinct_mem:
  assumes "distinct xs" and "x \<in> set xs"
  shows "count_list xs x = 1"
  using assms by (induction xs) auto

text \<open>
  C8, as the code has it: the list is built from the active products only, the type,
  category and supplier filters of the request apply before the search, and the search
  takes upper and lower case as equal for ASCII letters only. For a product of the store
  (keys are unique) that is active and passes those filters, each empty or equal to the
  product's own value, and that has a characteristic whose attribute or value contains
  the search text in that sense, the list is returned, holds the product, and holds it
  exactly once, however many of its characteristics match.
\<close>

theorem search_by_caracteristica_once:
  assumes "p \<in> set (db_productos d)"
    and "distinct (map ph_id (db_productos d))"
    and "ph_activo p"
    and "get_tipo rq = [] \<or> ph_tipo p = get_tipo rq"
    and "get_categoria rq = [] \<or>
         (\<exists>k. to_int (get_categoria rq) = Some k \<and> map_option int (ph_categoria p) = Some k)"
    and "get_empresa rq = [] \<or>
         (\<exists>k. to_int (get_empresa rq) = Some k \<and> map_option int (ph_empresa_proveedora p) = Some k)"
    and "c \<in> set (db_caracteristicas d)"
    and "cp_producto_hardware c = ph_id p"
    and "icontains (cp_attr c) (get_search rq) \<or> icontains (cp_valor c) (get_search rq)"
  shows "\<exists>rs. get_queryset to_int d rq = Inr rs \<and> p \<in> set rs \<and> count_list rs p = 1"
proof -
  define q0 where "q0 = filter (\<lambda>p. ph_activo p) (db_productos d)"
  define q1 where
    "q1 = (if get_tipo rq \<noteq> [] then filter (\<lambda>p. ph_tipo p = get_tipo rq) q0 else q0)"
  from assms(2) have d0: "distinct (db_productos d)" by (simp add: distinct_map)
  have m1: "p \<in> set q1" and d1: "distinct q1"
    using assms(1,3,4) d0 by (auto simp: q1_def q0_def)
  from key_filter_stage [where P = "\<lambda>k p. map_option int (ph_categoria p) = Some k"
      and f = "get_categoria rq" and to_int = to_int and p = p and qs = q1, OF assms(5) m1 d1]
  obtain q2 where s2:
      "(if get_categoria rq \<noteq> []
        then (case to_int (get_categoria rq) of None \<Rightarrow> Inl ValueError
              | Some k \<Rightarrow> Inr (filter (\<lambda>p. map_option int (ph_categoria p) = Some k) q1))
        else Inr q1) = Inr q2"
    and m2: "p \<in> set q2" and d2: "distinct q2"
    by blast
  from key_filter_stage [where P = "\<lambda>k p. map_option int (ph_empresa_proveedora p) = Some k"
      and f = "get_empresa rq" and to_int = to_int and p = p and qs = q2, OF assms(6) m2 d2]
  obtain q3 where s3:
      "(if get_empresa rq \<noteq> []
        then (case to_int (get_empresa rq) of None \<Rightarrow> Inl ValueError
              | Some k \<Rightarrow> Inr (filter (\<lambda>p. map_option int (ph_empresa_proveedora p) = Some k) q2))
        else Inr q2) = Inr q3"
    and m3: "p \<in> set q3" and d3: "distinct q3"
    by blast
  define rs where
    "rs = (if get_search rq \<noteq> []
           then remdups (map fst (filter (search_Q (get_search rq)) (join_caracteristicas d q3)))
           else q3)"
  have res: "get_queryset to_int d rq = Inr rs"
    unfolding get_queryset_def Let_def q0_def [symmetric] q1_def [symmetric] s2 sum.case s3 rs_def
    by (rule refl)
  have "(p, Some c) \<in> set (join_caracteristicas d q3)"
    using m3 assms(7,8) by (rule join_caracteristicas_mem)
  moreover have "search_Q (get_search rq) (p, Some c)"
    using assms(9) by (auto simp: search_Q_def)
  ultimately have "p \<in> fst ` set (filter (search_Q (get_search rq)) (join_caracteristicas d q3))"
    by force
  with m3 have mr: "p \<in> set rs" by (simp add: rs_def)
  have dr: "distinct rs" using d3 by (simp add: rs_def)
  from dr mr have "count_list rs p = 1" by (rule count_list_distinct_mem)
  with res mr show ?thesis by blast
qed

theorem search_by_caracteristica_once_witness:
  "ex_router \<in> set (db_productos ex_db) \<and>
   distinct (map ph_id (db_productos ex_db)) \<and>
   ph_activo ex_router \<and>
   ph_tipo ex_router = get_tipo ex_request_filtros \<and>
   ex_to_int (get_categoria ex_request_filtros) = Some 2 \<and>
   map_option int (ph_categoria ex_router) = Some 2 \<and>
   ex_to_int (get_empresa ex_request_filtros) = Some 1 \<and>
   map_option int (ph_empresa_proveedora ex_router) = Some 1 \<and>
   \<not> icontains (ph_nombre ex_router) (get_search ex_request_filtros) \<and>
   ex_banda \<in> set (db_caracteristicas ex_db) \<and>
   cp_producto_hardware ex_banda = ph_id ex_router \<and>
   icontains (cp_valor ex_banda) (get_search ex_request_filtros) \<and>
   ex_modo \<in> set (db_caracteristicas ex_db) \<and>
   cp_producto_hardware ex_modo = ph_id ex_router \<and>
   icontains (cp_attr ex_modo) (get_search ex_request_filtros) \<and>
   get_queryset ex_to_int ex_db ex_request_filtros = Inr [ex_router] \<and>
   (\<exists>rs. get_queryset ex_to_int ex_db ex_request_filtros = Inr rs \<and>
      ex_router \<in> set rs \<and> count_list rs ex_router = 1)"
proof -
  have h1: "ex_router \<in> set (db_productos ex_db)" by code_simp
  have h2: "distinct (map ph_id (db_productos ex_db))" by code_simp
  have h3: "ph_activo ex_router" by code_simp
  have h4: "ph_tipo ex_router = get_tipo ex_request_filtros" by code_simp
  have h5: "ex_to_int (get_categoria ex_request_filtros) = Some 2"
    and h5': "map_option int (ph_categoria ex_router) = Some 2" by code_simp+
  have h6: "ex_to_int (get_empresa ex_request_filtros) = Some 1"
    and h6': "map_option int (ph_empresa_proveedora ex_router) = Some 1" by code_simp+
  have h7: "ex_banda \<in> set (db_caracteristicas ex_db)"
    and h8: "cp_producto_hardware ex_banda = ph_id ex_router"
    and h9: "icontains (cp_valor ex_banda) (get_search ex_request_filtros)" by code_simp+
  have m1: "ex_modo \<in> set (db_caracteristicas ex_db)"
    and m2: "cp_producto_hardware ex_modo = ph_id ex_router"
    and m3: "icontains (cp_attr ex_modo) (get_search ex_request_filtros)"
    and n: "\<not> icontains (ph_nombre ex_router) (get_search ex_request_filtros)" by code_simp+
  have e: "get_queryset ex_to_int ex_db ex_request_filtros = Inr [ex_router]" by code_simp
  have t: "\<exists>rs. get_queryset ex_to_int ex_db ex_request_filtros = Inr rs \<and>
      ex_router \<in> set rs \<and> count_list rs ex_router = 1"
    using h5 h5' h6 h6' h9
    by (intro search_by_caracteristica_once [OF h1 h2 h3 _ _ _ h7 h8]) (simp_all add: h4)
  from h1 h2 h3 h4 h5 h5' h6 h6' n h7 h8 h9 m1 m2 m3 e t show ?thesis by blast
qed

text \<open>
  C8 as stated, for every product and any letters, fails twice. A product that is not
  active is not listed: the laptop of the store is named \<open>Laptop Pro\<close>, its
  characteristic \<open>Disco\<close> has the value \<open>SSD 512GB\<close>, and the search for \<open>ssd\<close>
  returns the empty list. And letters outside ASCII are compared as they are: the
  active router has a characteristic whose value ends in the upper case of
  \<open>ex_optima\<close>; the search for \<open>ex_optima\<close> returns the empty list, while the search
  for \<open>ex_Optima\<close>, which differs from the value in ASCII letters only, returns the
  router.
\<close>

theorem product_filter_skips_inactive_counterexample:
  "ex_laptop \<in> set (db_productos ex_db) \<and>
   \<not> icontains (ph_nombre ex_laptop) ''ssd'' \<and>
   ex_disco \<in> set (db_caracteristicas ex_db) \<and>
   cp_producto_hardware ex_disco = ph_id ex_laptop \<and>
   icontains (cp_valor ex_disco) ''ssd'' \<and>
   get_queryset ex_to_int ex_db (ex_request ''ssd'') = Inr [] \<and>
   ex_router \<in> set (db_productos ex_db_senal) \<and>
   ph_activo ex_router \<and>
   ex_senal \<in> set (db_caracteristicas ex_db_senal) \<and>
   cp_producto_hardware ex_senal = ph_id ex_router \<and>
   get_queryset ex_to_int ex_db_senal (ex_request ex_optima) = Inr [] \<and>
   get_queryset ex_to_int ex_db_senal (ex_request ex_Optima) = Inr [ex_router]"
  by code_simp

end
